theory Spec2Isabelle
  imports Complex_Main "HOL-Library.AList"
begin

section \<open>pScheduler JSON validation (\<open>pscheduler/jsonval.py\<close>)\<close>

text \<open>
  The module holds a type dictionary (\<open>__dictionary__\<close>), a default schema that embeds
  the dictionary (\<open>__default_schema__\<close>) and one function, \<open>json_validate\<close>, which
  lays a caller's skeleton over a copy of the default schema, has the \<open>jsonschema\<close>
  library check the schema and validate the instance, and turns the first validation
  error into a pair of a truth value and a message.

  The \<open>jsonschema\<close> library is not part of the module. The function is therefore
  modelled over an arbitrary engine (what \<open>check_schema\<close> and \<open>validate\<close> answer), and
  the general theorems hold for every engine. A second part gives one engine for the
  draft-4 keywords that the integer entries of the dictionary and the examples use, so
  that the function can be evaluated on concrete inputs.
\<close>

subsection \<open>JSON values and Python dictionaries\<close>

text \<open>
  A Python \<open>dict\<close> is an association list with distinct keys; the order of the list is
  the iteration order of the dictionary. A float is carried by the rational number it
  denotes (the module compares floats, it does no arithmetic on them).
\<close>

datatype json =
    JNull
  | JBool bool
  | JInt int
  | JFloat rat
  | JStr string
  | JArr "json list"
  | JObj "(string \<times> json) list"

text \<open>The exceptions that can leave \<open>json_validate\<close>. \<open>Unsupported\<close> is raised only by
  the engine of the second part, on a keyword or value it does not model.\<close>

datatype error =
    ValueError string
  | TypeError
  | AttributeError
  | SchemaError
  | RefResolutionError
  | UnknownType
  | RecursionError
  | Unsupported string

text \<open>The backslash, which a string literal cannot hold.\<close>

abbreviation bs :: string where
  "bs \<equiv> [CHR 0x5C]"

subsection \<open>String operations of Python used by the module\<close>

text \<open>\<open>sep.join(xs)\<close>.\<close>

fun join :: "string \<Rightarrow> string list \<Rightarrow> string" where
  "join sep [] = []"
| "join sep [x] = x"
| "join sep (x # y # ys) = x @ sep @ join sep (y # ys)"

text \<open>\<open>s.replace(old, new)\<close> for a non-empty \<open>old\<close>: every occurrence, left to right,
  without overlap. For an empty \<open>old\<close> Python puts \<open>new\<close> before every character and at
  the end.\<close>

function replace :: "string \<Rightarrow> string \<Rightarrow> string \<Rightarrow> string" where
  "replace old new [] = (if old = [] then new else [])"
| "replace old new (c # cs) =
     (if old = [] then new @ c # replace old new cs
      else if take (length old) (c # cs) = old
        then new @ replace old new (drop (length old) (c # cs))
        else c # replace old new cs)"
  by pat_completeness auto
termination
  by (relation "measure (\<lambda>(old, new, s). length s)") auto

text \<open>\<open>str(n)\<close> for a natural number: its decimal digits.\<close>

definition digit :: "nat \<Rightarrow> char" where
  "digit d = ''0123456789'' ! d"

function str_nat :: "nat \<Rightarrow> string" where
  "str_nat n = (if n < 10 then [digit n] else str_nat (n div 10) @ [digit (n mod 10)])"
  by pat_completeness auto
termination
  by (relation "measure id") auto

declare str_nat.simps [simp del]

subsection \<open>The module's objects\<close>

text \<open>
  \<open>__default_schema__\<close> holds the dictionary by reference: its slot \<open>pScheduler\<close> is the
  object \<open>__dictionary__\<close> itself, and \<open>copy.copy\<close> copies the reference, not the
  dictionary. A slot of a schema object is therefore either a value or the reference to
  the dictionary. The state is the two module-level objects and the objects allocated by
  calls.
\<close>

datatype slot = Val json | Dictionary_ref

datatype pyref = Default_schema | Heap nat

record pystate =
  g_dictionary :: "(string \<times> json) list"
  g_default_schema :: "(string \<times> slot) list"
  heap :: "(string \<times> slot) list list"

definition getobj :: "pystate \<Rightarrow> pyref \<Rightarrow> (string \<times> slot) list" where
  "getobj st r =
     (case r of
        Default_schema \<Rightarrow> g_default_schema st
      | Heap n \<Rightarrow> (if n < length (heap st) then heap st ! n else []))"

text \<open>\<open>copy.copy(obj)\<close>: a new object with the same slots.\<close>

definition copy_copy :: "pystate \<Rightarrow> pyref \<Rightarrow> pyref \<times> pystate" where
  "copy_copy st r = (Heap (length (heap st)), st\<lparr>heap := heap st @ [getobj st r]\<rparr>)"

text \<open>\<open>obj[k] = v\<close>: writes into the object the reference denotes.\<close>

definition setitem :: "pystate \<Rightarrow> pyref \<Rightarrow> string \<Rightarrow> slot \<Rightarrow> pystate" where
  "setitem st r k v =
     (case r of
        Default_schema \<Rightarrow> st\<lparr>g_default_schema := AList.update k v (g_default_schema st)\<rparr>
      | Heap n \<Rightarrow> st\<lparr>heap := (heap st)[n := AList.update k v (getobj st (Heap n))]\<rparr>)"

text \<open>What a reader of an object sees: the reference followed.\<close>

definition slot_value :: "pystate \<Rightarrow> slot \<Rightarrow> json" where
  "slot_value st s = (case s of Val v \<Rightarrow> v | Dictionary_ref \<Rightarrow> JObj (g_dictionary st))"

definition view :: "pystate \<Rightarrow> pyref \<Rightarrow> json" where
  "view st r = JObj (map (\<lambda>(k, s). (k, slot_value st s)) (getobj st r))"

subsection \<open>The type dictionary\<close>

text \<open>
  \<open>__dictionary__\<close>. Each entry is a constant of its own, named after its key, in the
  order of the module; \<open>dictionary\<close> collects them under their keys.
\<close>

definition dict_AnyJSON :: json where
  "dict_AnyJSON =
     JObj [
      (''oneOf'', JArr [
        JObj [(''type'', JStr ''array'')],
        JObj [(''type'', JStr ''boolean'')],
        JObj [(''type'', JStr ''integer'')],
        JObj [(''type'', JStr ''null'')],
        JObj [(''type'', JStr ''number'')],
        JObj [(''type'', JStr ''object'')],
        JObj [(''type'', JStr ''string'')]])]"

definition dict_Array :: json where
  "dict_Array =
     JObj [(''type'', JStr ''array'')]"

definition dict_AS :: json where
  "dict_AS =
     JObj [
      (''type'', JStr ''object''),
      (''properties'', JObj [
        (''number'', JObj [(''$ref'', JStr ''#/pScheduler/Cardinal'')]),
        (''owner'', JObj [(''type'', JStr ''string'')])]),
      (''additionalProperties'', JBool False),
      (''required'', JArr [JStr ''number''])]"

definition dict_Boolean :: json where
  "dict_Boolean =
     JObj [(''type'', JStr ''boolean'')]"

definition dict_Cardinal :: json where
  "dict_Cardinal =
     JObj [(''type'', JStr ''integer''), (''minimum'', JInt 1)]"

definition dict_CardinalList :: json where
  "dict_CardinalList =
     JObj [
      (''type'', JStr ''array''),
      (''items'', JObj [(''$ref'', JStr ''#/pScheduler/Cardinal'')])]"

definition dict_CardinalRange :: json where
  "dict_CardinalRange =
     JObj [
      (''type'', JStr ''object''),
      (''properties'', JObj [
        (''lower'', JObj [(''$ref'', JStr ''#/pScheduler/Cardinal'')]),
        (''upper'', JObj [(''$ref'', JStr ''#/pScheduler/Cardinal'')])]),
      (''additionalProperties'', JBool False),
      (''required'', JArr [JStr ''lower'', JStr ''upper''])]"

definition dict_CardinalZero :: json where
  "dict_CardinalZero =
     JObj [(''type'', JStr ''integer''), (''minimum'', JInt 0)]"

definition dict_CardinalZeroList :: json where
  "dict_CardinalZeroList =
     JObj [
      (''type'', JStr ''array''),
      (''items'', JObj [(''$ref'', JStr ''#/pScheduler/CardinalZero'')])]"

definition dict_CardinalZeroRange :: json where
  "dict_CardinalZeroRange =
     JObj [
      (''type'', JStr ''object''),
      (''properties'', JObj [
        (''lower'', JObj [(''$ref'', JStr ''#/pScheduler/CardinalZero'')]),
        (''upper'', JObj [(''$ref'', JStr ''#/pScheduler/CardinalZero'')])]),
      (''additionalProperties'', JBool False),
      (''required'', JArr [JStr ''lower'', JStr ''upper''])]"

definition dict_ClockState :: json where
  "dict_ClockState =
     JObj [
      (''type'', JStr ''object''),
      (''properties'', JObj [
        (''time'', JObj [(''$ref'', JStr ''#/pScheduler/Timestamp'')]),
        (''synchronized'', JObj [(''$ref'', JStr ''#/pScheduler/Boolean'')]),
        (''source'', JObj [(''$ref'', JStr ''#/pScheduler/String'')]),
        (''reference'', JObj [(''$ref'', JStr ''#/pScheduler/String'')]),
        (''offset'', JObj [(''$ref'', JStr ''#/pScheduler/Number'')])]),
      (''additionalProperties'', JBool False),
      (''required'', JArr [JStr ''time'', JStr ''synchronized''])]"

definition dict_Duration :: json where
  "dict_Duration =
     JObj [
      (''type'', JStr ''string''),
      (''pattern'', JStr (''^P(?:'' @ bs @ ''d+(?:'' @ bs @ ''.'' @ bs @ ''d+)?W)?(?:'' @ bs @ ''d+(?:'' @ bs @ ''.'' @ bs @ ''d+)?D)?(?:T(?:'' @ bs @ ''d+(?:'' @ bs @ ''.'' @ bs @ ''d+)?H)?(?:'' @ bs @ ''d+(?:'' @ bs @ ''.'' @ bs @ ''d+)?M)?(?:'' @ bs @ ''d+(?:'' @ bs @ ''.'' @ bs @ ''d+)?S)?)?$'')),
      (''x-invalid-message'', JStr ''\\'%s\\' is not a valid ISO 8601 duration.'')]"

definition dict_DurationRange :: json where
  "dict_DurationRange =
     JObj [
      (''type'', JStr ''object''),
      (''properties'', JObj [
        (''lower'', JObj [(''$ref'', JStr ''#/pScheduler/Duration'')]),
        (''upper'', JObj [(''$ref'', JStr ''#/pScheduler/Duration'')])]),
      (''additionalProperties'', JBool False),
      (''required'', JArr [JStr ''lower'', JStr ''upper''])]"

definition dict_Email :: json where
  "dict_Email =
     JObj [(''type'', JStr ''string''), (''format'', JStr ''email'')]"

definition dict_Float :: json where
  "dict_Float =
     JObj [(''type'', JStr ''number'')]"

definition dict_GeographicPosition :: json where
  "dict_GeographicPosition =
     JObj [
      (''type'', JStr ''string''),
      (''pattern'', JStr (''^(([+-]'' @ bs @ ''d{2})('' @ bs @ ''d{2})?('' @ bs @ ''d{2})?('' @ bs @ ''.'' @ bs @ ''d+)?)(([+-]'' @ bs @ ''d{3})('' @ bs @ ''d{2})?('' @ bs @ ''d{2})?('' @ bs @ ''.'' @ bs @ ''d+)?)([+-]'' @ bs @ ''d+('' @ bs @ ''.'' @ bs @ ''d+)?)?$''))]"

definition dict_Host :: json where
  "dict_Host =
     JObj [
      (''anyOf'', JArr [
        JObj [(''$ref'', JStr ''#/pScheduler/HostName'')],
        JObj [(''$ref'', JStr ''#/pScheduler/IPAddress'')]])]"

definition dict_HostName :: json where
  "dict_HostName =
     JObj [(''type'', JStr ''string''), (''format'', JStr ''host-name'')]"

definition dict_Integer :: json where
  "dict_Integer =
     JObj [(''type'', JStr ''integer'')]"

definition dict_IPAddress :: json where
  "dict_IPAddress =
     JObj [
      (''oneOf'', JArr [
        JObj [(''type'', JStr ''string''), (''format'', JStr ''ipv4'')],
        JObj [(''type'', JStr ''string''), (''format'', JStr ''ipv6'')]])]"

definition dict_IPv4 :: json where
  "dict_IPv4 =
     JObj [(''type'', JStr ''string''), (''format'', JStr ''ipv4'')]"

definition dict_IPv6 :: json where
  "dict_IPv6 =
     JObj [(''type'', JStr ''string''), (''format'', JStr ''ipv6'')]"

definition dict_IPv4CIDR :: json where
  "dict_IPv4CIDR =
     JObj [
      (''type'', JStr ''string''),
      (''pattern'', JStr (''^(([0-9]|[1-9][0-9]|1[0-9]{2}|2[0-4][0-9]|25[0-5])'' @ bs @ ''.){3}([0-9]|[1-9][0-9]|1[0-9]{2}|2[0-4][0-9]|25[0-5])('' @ bs @ ''/([0-9]|[1-2][0-9]|3[0-2]))$''))]"

definition dict_IPv6CIDR :: json where
  "dict_IPv6CIDR =
     JObj [
      (''type'', JStr ''string''),
      (''pattern'', JStr (''^s*((([0-9A-Fa-f]{1,4}:){7}([0-9A-Fa-f]{1,4}|:))|(([0-9A-Fa-f]{1,4}:){6}(:[0-9A-Fa-f]{1,4}|((25[0-5]|2[0-4]d|1dd|[1-9]?d)(.(25[0-5]|2[0-4]d|1dd|[1-9]?d)){3})|:))|(([0-9A-Fa-f]{1,4}:){5}(((:[0-9A-Fa-f]{1,4}){1,2})|:((25[0-5]|2[0-4]d|1dd|[1-9]?d)(.(25[0-5]|2[0-4]d|1dd|[1-9]?d)){3})|:))|(([0-9A-Fa-f]{1,4}:){4}(((:[0-9A-Fa-f]{1,4}){1,3})|((:[0-9A-Fa-f]{1,4})?:((25[0-5]|2[0-4]d|1dd|[1-9]?d)(.(25[0-5]|2[0-4]d|1dd|[1-9]?d)){3}))|:))|(([0-9A-Fa-f]{1,4}:){3}(((:[0-9A-Fa-f]{1,4}){1,4})|((:[0-9A-Fa-f]{1,4}){0,2}:((25[0-5]|2[0-4]d|1dd|[1-9]?d)(.(25[0-5]|2[0-4]d|1dd|[1-9]?d)){3}))|:))|(([0-9A-Fa-f]{1,4}:){2}(((:[0-9A-Fa-f]{1,4}){1,5})|((:[0-9A-Fa-f]{1,4}){0,3}:((25[0-5]|2[0-4]d|1dd|[1-9]?d)(.(25[0-5]|2[0-4]d|1dd|[1-9]?d)){3}))|:))|(([0-9A-Fa-f]{1,4}:){1}(((:[0-9A-Fa-f]{1,4}){1,6})|((:[0-9A-Fa-f]{1,4}){0,4}:((25[0-5]|2[0-4]d|1dd|[1-9]?d)(.(25[0-5]|2[0-4]d|1dd|[1-9]?d)){3}))|:))|(:(((:[0-9A-Fa-f]{1,4}){1,7})|((:[0-9A-Fa-f]{1,4}){0,5}:((25[0-5]|2[0-4]d|1dd|[1-9]?d)(.(25[0-5]|2[0-4]d|1dd|[1-9]?d)){3}))|:)))(%.+)?s*('' @ bs @ ''/([0-9]|[1-9][0-9]|1[0-1][0-9]|12[0-8]))?$''))]"

definition dict_IPCIDR :: json where
  "dict_IPCIDR =
     JObj [
      (''oneOf'', JArr [
        JObj [(''$ref'', JStr ''#/pScheduler/IPv4CIDR'')],
        JObj [(''$ref'', JStr ''#/pScheduler/IPv6CIDR'')]])]"

definition dict_Int8 :: json where
  "dict_Int8 =
     JObj [
      (''type'', JStr ''integer''),
      (''minimum'', JInt (- 128)),
      (''maximum'', JInt 127)]"

definition dict_UInt8 :: json where
  "dict_UInt8 =
     JObj [
      (''type'', JStr ''integer''),
      (''minimum'', JInt 0),
      (''maximum'', JInt 255)]"

definition dict_Int16 :: json where
  "dict_Int16 =
     JObj [
      (''type'', JStr ''integer''),
      (''minimum'', JInt (- 32768)),
      (''maximum'', JInt 32767)]"

definition dict_UInt16 :: json where
  "dict_UInt16 =
     JObj [
      (''type'', JStr ''integer''),
      (''minimum'', JInt 0),
      (''maximum'', JInt 65535)]"

definition dict_Int32 :: json where
  "dict_Int32 =
     JObj [
      (''type'', JStr ''integer''),
      (''minimum'', JInt (- 2147483648)),
      (''maximum'', JInt 2147483647)]"

definition dict_UInt32 :: json where
  "dict_UInt32 =
     JObj [
      (''type'', JStr ''integer''),
      (''minimum'', JInt 0),
      (''maximum'', JInt 4294967295)]"

definition dict_Int64 :: json where
  "dict_Int64 =
     JObj [
      (''type'', JStr ''integer''),
      (''minimum'', JInt (- 9223372036854775808)),
      (''maximum'', JInt 9223372036854775807)]"

definition dict_UInt64 :: json where
  "dict_UInt64 =
     JObj [
      (''type'', JStr ''integer''),
      (''minimum'', JInt 0),
      (''maximum'', JInt 184446744073709551615)]"

definition dict_IPPort :: json where
  "dict_IPPort =
     JObj [
      (''type'', JStr ''integer''),
      (''minimum'', JInt 0),
      (''maximum'', JInt 65535)]"

definition dict_IPPortRange :: json where
  "dict_IPPortRange =
     JObj [
      (''type'', JStr ''object''),
      (''properties'', JObj [
        (''lower'', JObj [(''$ref'', JStr ''#/pScheduler/IPPort'')]),
        (''upper'', JObj [(''$ref'', JStr ''#/pScheduler/IPPort'')])]),
      (''additionalProperties'', JBool False),
      (''required'', JArr [JStr ''lower'', JStr ''upper''])]"

definition dict_IPTOS :: json where
  "dict_IPTOS =
     JObj [
      (''type'', JStr ''integer''),
      (''minimum'', JInt 0),
      (''maximum'', JInt 255)]"

definition dict_JQTransformSpecification :: json where
  "dict_JQTransformSpecification =
     JObj [
      (''type'', JStr ''object''),
      (''properties'', JObj [
        (''script'', JObj [(''$ref'', JStr ''#/pScheduler/String'')]),
        (''output-raw'', JObj [(''$ref'', JStr ''#/pScheduler/Boolean'')])]),
      (''additionalProperties'', JBool False),
      (''required'', JArr [JStr ''script''])]"

definition dict_Number :: json where
  "dict_Number =
     JObj [(''type'', JStr ''number'')]"

definition dict_Numeric :: json where
  "dict_Numeric =
     JObj [
      (''anyOf'', JArr [
        JObj [(''$ref'', JStr ''#/pScheduler/Number'')],
        JObj [(''$ref'', JStr ''#/pScheduler/SINumber'')]])]"

definition dict_NumericRange :: json where
  "dict_NumericRange =
     JObj [
      (''type'', JStr ''object''),
      (''properties'', JObj [
        (''lower'', JObj [(''$ref'', JStr ''#/pScheduler/Numeric'')]),
        (''upper'', JObj [(''$ref'', JStr ''#/pScheduler/Numeric'')])]),
      (''additionalProperties'', JBool False),
      (''required'', JArr [JStr ''lower'', JStr ''upper''])]"

definition dict_Probability :: json where
  "dict_Probability =
     JObj [
      (''type'', JStr ''number''),
      (''minimum'', JFloat 0),
      (''maximum'', JFloat 1)]"

definition dict_ProbabilityRange :: json where
  "dict_ProbabilityRange =
     JObj [
      (''type'', JStr ''object''),
      (''properties'', JObj [
        (''lower'', JObj [(''$ref'', JStr ''#/pScheduler/Probability'')]),
        (''upper'', JObj [(''$ref'', JStr ''#/pScheduler/Probability'')])]),
      (''additionalProperties'', JBool False),
      (''required'', JArr [JStr ''lower'', JStr ''upper''])]"

definition dict_RetryPolicy :: json where
  "dict_RetryPolicy =
     JObj [
      (''type'', JStr ''array''),
      (''items'', JObj [(''$ref'', JStr ''#/pScheduler/RetryPolicyEntry'')])]"

definition dict_RetryPolicyEntry :: json where
  "dict_RetryPolicyEntry =
     JObj [
      (''type'', JStr ''object''),
      (''properties'', JObj [
        (''attempts'', JObj [(''$ref'', JStr ''#/pScheduler/Cardinal'')]),
        (''wait'', JObj [(''$ref'', JStr ''#/pScheduler/Duration'')])]),
      (''additionalProperties'', JBool False),
      (''required'', JArr [JStr ''attempts'', JStr ''wait''])]"

definition dict_SINumber :: json where
  "dict_SINumber =
     JObj [
      (''oneOf'', JArr [
        JObj [
          (''type'', JStr ''string''),
          (''pattern'', JStr (''^[0-9]+('' @ bs @ ''.[0-9]+)?('' @ bs @ ''s*[KkMmGgTtPpEeZzYy][Ii]?)?$''))],
        JObj [(''type'', JStr ''integer'')]])]"

definition dict_SINumberRange :: json where
  "dict_SINumberRange =
     JObj [
      (''type'', JStr ''object''),
      (''properties'', JObj [
        (''lower'', JObj [(''$ref'', JStr ''#/pScheduler/SINumber'')]),
        (''upper'', JObj [(''$ref'', JStr ''#/pScheduler/SINumber'')])]),
      (''additionalProperties'', JBool False),
      (''required'', JArr [JStr ''lower'', JStr ''upper''])]"

definition dict_String :: json where
  "dict_String =
     JObj [(''type'', JStr ''string'')]"

definition dict_StringList :: json where
  "dict_StringList =
     JObj [
      (''type'', JStr ''array''),
      (''items'', JObj [(''$ref'', JStr ''#/pScheduler/String'')])]"

definition dict_StringMatch :: json where
  "dict_StringMatch =
     JObj [
      (''type'', JStr ''object''),
      (''properties'', JObj [
        (''style'', JObj [
          (''type'', JStr ''string''),
          (''enum'', JArr [JStr ''exact'', JStr ''contains'', JStr ''regex''])]),
        (''match'', JObj [(''$ref'', JStr ''#/pScheduler/String'')]),
        (''case-insensitive'', JObj [(''$ref'', JStr ''#/pScheduler/Boolean'')]),
        (''invert'', JObj [(''$ref'', JStr ''#/pScheduler/Boolean'')])]),
      (''additionalProperties'', JBool False),
      (''required'', JArr [JStr ''style'', JStr ''match''])]"

definition dict_EnumMatch :: json where
  "dict_EnumMatch =
     JObj [
      (''type'', JStr ''array''),
      (''properties'', JObj [
        (''enumeration'', JObj [
          (''type'', JStr ''array''),
          (''items'', JObj [
            (''anyOf'', JArr [
              JObj [(''type'', JStr ''string'')],
              JObj [(''$ref'', JStr ''#/pScheduler/Number'')]])])]),
        (''invert'', JObj [(''$ref'', JStr ''#/pScheduler/Boolean'')])]),
      (''additionalProperties'', JBool False),
      (''required'', JArr [JStr ''enumeration''])]"

definition dict_Timestamp :: json where
  "dict_Timestamp =
     JObj [
      (''type'', JStr ''string''),
      (''pattern'', JStr (''^(['' @ bs @ ''+-]?'' @ bs @ ''d{4}(?!'' @ bs @ ''d{2}'' @ bs @ ''b))((-?)((0[1-9]|1[0-2])('' @ bs @ ''3([12]'' @ bs @ ''d|0[1-9]|3[01]))?|W([0-4]'' @ bs @ ''d|5[0-2])(-?[1-7])?|(00[1-9]|0[1-9]'' @ bs @ ''d|[12]'' @ bs @ ''d{2}|3([0-5]'' @ bs @ ''d|6[1-6])))([T'' @ bs @ ''s]((([01]'' @ bs @ ''d|2[0-3])((:?)[0-5]'' @ bs @ ''d)?|24'' @ bs @ '':?00)(['' @ bs @ ''.,]'' @ bs @ ''d+(?!:))?)?('' @ bs @ ''17[0-5]'' @ bs @ ''d(['' @ bs @ ''.,]'' @ bs @ ''d+)?)?([zZ]|(['' @ bs @ ''+-])([01]'' @ bs @ ''d|2[0-3]):?([0-5]'' @ bs @ ''d)?)?)?)?$''))]"

definition dict_TimestampAbsoluteRelative :: json where
  "dict_TimestampAbsoluteRelative =
     JObj [
      (''oneOf'', JArr [
        JObj [(''$ref'', JStr ''#/pScheduler/Timestamp'')],
        JObj [(''$ref'', JStr ''#/pScheduler/Duration'')],
        JObj [
          (''type'', JStr ''string''),
          (''pattern'', JStr (''^@(R'' @ bs @ ''d*/)?P(?:'' @ bs @ ''d+(?:'' @ bs @ ''.'' @ bs @ ''d+)?Y)?(?:'' @ bs @ ''d+(?:'' @ bs @ ''.'' @ bs @ ''d+)?M)?(?:'' @ bs @ ''d+(?:'' @ bs @ ''.'' @ bs @ ''d+)?W)?(?:'' @ bs @ ''d+(?:'' @ bs @ ''.'' @ bs @ ''d+)?D)?(?:T(?:'' @ bs @ ''d+(?:'' @ bs @ ''.'' @ bs @ ''d+)?H)?(?:'' @ bs @ ''d+(?:'' @ bs @ ''.'' @ bs @ ''d+)?M)?(?:'' @ bs @ ''d+(?:'' @ bs @ ''.'' @ bs @ ''d+)?S)?)?$''))]])]"

definition dict_URL :: json where
  "dict_URL =
     JObj [(''type'', JStr ''string''), (''format'', JStr ''uri'')]"

definition dict_UUID :: json where
  "dict_UUID =
     JObj [
      (''type'', JStr ''string''),
      (''pattern'', JStr ''^[0-9A-Fa-f]{8}-[0-9A-Fa-f]{4}-[0-9A-Fa-f]{4}-[0-9A-Fa-f]{4}-[0-9A-Fa-f]{12}$'')]"

definition dict_Version :: json where
  "dict_Version =
     JObj [
      (''type'', JStr ''string''),
      (''pattern'', JStr (''^[0-9]+('' @ bs @ ''.[0-9]+('' @ bs @ ''.[0-9]+)?)$''))]"

definition dict_ArchiveSpecification :: json where
  "dict_ArchiveSpecification =
     JObj [
      (''type'', JStr ''object''),
      (''properties'', JObj [
        (''archiver'', JObj [(''type'', JStr ''string'')]),
        (''data'', JObj [(''$ref'', JStr ''#/pScheduler/AnyJSON'')]),
        (''transform'', JObj [(''$ref'', JStr ''#/pScheduler/JQTransformSpecification'')]),
        (''ttl'', JObj [(''$ref'', JStr ''#/pScheduler/Duration'')])]),
      (''additionalProperties'', JBool False),
      (''required'', JArr [JStr ''archiver'', JStr ''data''])]"

definition dict_Maintainer :: json where
  "dict_Maintainer =
     JObj [
      (''type'', JStr ''object''),
      (''properties'', JObj [
        (''name'', JObj [(''type'', JStr ''string'')]),
        (''email'', JObj [(''$ref'', JStr ''#/pScheduler/Email'')]),
        (''href'', JObj [(''$ref'', JStr ''#/pScheduler/URL'')])]),
      (''additionalProperties'', JBool False),
      (''required'', JArr [JStr ''name''])]"

definition dict_NameVersion :: json where
  "dict_NameVersion =
     JObj [
      (''type'', JStr ''object''),
      (''properties'', JObj [
        (''name'', JObj [(''type'', JStr ''string'')]),
        (''version'', JObj [(''$ref'', JStr ''#/pScheduler/Version'')])]),
      (''additionalProperties'', JBool False),
      (''required'', JArr [JStr ''name'', JStr ''version''])]"

definition dict_ParticipantResult :: json where
  "dict_ParticipantResult =
     JObj [
      (''type'', JStr ''object''),
      (''properties'', JObj [
        (''participant'', JObj [(''$ref'', JStr ''#/pScheduler/Host'')]),
        (''result'', JObj [(''$ref'', JStr ''#/pScheduler/AnyJSON'')])]),
      (''additionalProperties'', JBool False),
      (''required'', JArr [JStr ''participant'', JStr ''result''])]"

definition dict_RunResult :: json where
  "dict_RunResult =
     JObj [
      (''type'', JStr ''object''),
      (''properties'', JObj [
        (''id'', JObj [(''$ref'', JStr ''#/pScheduler/UUID'')]),
        (''schedule'', JObj [(''$ref'', JStr ''#/pScheduler/TimeRange'')]),
        (''test'', JObj [(''$ref'', JStr ''#/pScheduler/TestSpecification'')]),
        (''tool'', JObj [(''$ref'', JStr ''#/pScheduler/NameVersion'')]),
        (''participants'', JObj [
          (''type'', JStr ''array''),
          (''items'', JObj [(''$ref'', JStr ''#/pScheduler/ParticipantResult'')])]),
        (''result'', JObj [(''$ref'', JStr ''#/pScheduler/AnyJSON'')])]),
      (''additionalProperties'', JBool False),
      (''required'', JArr [
        JStr ''id'',
        JStr ''schedule'',
        JStr ''test'',
        JStr ''tool'',
        JStr ''participants'',
        JStr ''result''])]"

definition dict_ScheduleSpecification :: json where
  "dict_ScheduleSpecification =
     JObj [
      (''type'', JStr ''object''),
      (''properties'', JObj [
        (''start'', JObj [(''$ref'', JStr ''#/pScheduler/TimestampAbsoluteRelative'')]),
        (''slip'', JObj [(''$ref'', JStr ''#/pScheduler/Duration'')]),
        (''sliprand'', JObj [(''$ref'', JStr ''#/pScheduler/Boolean'')]),
        (''repeat'', JObj [(''$ref'', JStr ''#/pScheduler/Duration'')]),
        (''until'', JObj [(''$ref'', JStr ''#/pScheduler/TimestampAbsoluteRelative'')]),
        (''max-runs'', JObj [(''$ref'', JStr ''#/pScheduler/Cardinal'')])]),
      (''additionalProperties'', JBool False)]"

definition dict_TaskSpecification :: json where
  "dict_TaskSpecification =
     JObj [
      (''type'', JStr ''object''),
      (''properties'', JObj [
        (''schema'', JObj [(''$ref'', JStr ''#/pScheduler/Cardinal'')]),
        (''lead-bind'', JObj [(''$ref'', JStr ''#/pScheduler/Host'')]),
        (''test'', JObj [(''$ref'', JStr ''#/pScheduler/TestSpecification'')]),
        (''tool'', JObj [(''$ref'', JStr ''#/pScheduler/String'')]),
        (''tools'', JObj [(''$ref'', JStr ''#/pScheduler/StringList'')]),
        (''schedule'', JObj [(''$ref'', JStr ''#/pScheduler/ScheduleSpecification'')]),
        (''archives'', JObj [
          (''type'', JStr ''array''),
          (''items'', JObj [(''$ref'', JStr ''#/pScheduler/ArchiveSpecification'')])]),
        (''reference'', JObj [(''$ref'', JStr ''#/pScheduler/AnyJSON'')]),
        (''_key'', JObj [(''$ref'', JStr ''#/pScheduler/String'')])]),
      (''additionalProperties'', JBool False),
      (''required'', JArr [JStr ''test''])]"

definition dict_TestSpecification :: json where
  "dict_TestSpecification =
     JObj [
      (''type'', JStr ''object''),
      (''properties'', JObj [
        (''type'', JObj [(''$ref'', JStr ''#/pScheduler/String'')]),
        (''spec'', JObj [(''$ref'', JStr ''#/pScheduler/AnyJSON'')])]),
      (''additionalProperties'', JBool False),
      (''required'', JArr [JStr ''type'', JStr ''spec''])]"

definition dict_TimeRange :: json where
  "dict_TimeRange =
     JObj [
      (''type'', JStr ''object''),
      (''properties'', JObj [
        (''start'', JObj [(''$ref'', JStr ''#/pScheduler/Timestamp'')]),
        (''end'', JObj [(''$ref'', JStr ''#/pScheduler/Timestamp'')])]),
      (''additionalProperties'', JBool False)]"

definition dict_icmp_error :: json where
  "dict_icmp_error =
     JObj [
      (''type'', JStr ''string''),
      (''enum'', JArr [
        JStr ''net-unreachable'',
        JStr ''host-unreachable'',
        JStr ''protocol-unreachable'',
        JStr ''port-unreachable'',
        JStr ''fragmentation-needed-and-df-set'',
        JStr ''source-route-failed'',
        JStr ''destination-network-unknown'',
        JStr ''destination-host-unknown'',
        JStr ''source-host-isolated'',
        JStr ''destination-network-administratively-prohibited'',
        JStr ''destination-host-administratively-prohibited'',
        JStr ''network-unreachable-for-type-of-service'',
        JStr ''icmp-destination-host-unreachable-tos'',
        JStr ''communication-administratively-prohibited'',
        JStr ''host-precedence-violation'',
        JStr ''precedence-cutoff-in-effect''])]"

definition dict_ip_version :: json where
  "dict_ip_version =
     JObj [(''type'', JStr ''integer''), (''enum'', JArr [JInt 4, JInt 6])]"

definition dict_ip_version_list :: json where
  "dict_ip_version_list =
     JObj [
      (''type'', JStr ''array''),
      (''items'', JObj [(''$ref'', JStr ''#/pScheduler/ip-version'')])]"

definition dict_Limit :: json where
  "dict_Limit =
     JObj [
      (''Boolean'', JObj [
        (''type'', JStr ''object''),
        (''properties'', JObj [
          (''description'', JObj [(''$ref'', JStr ''#/pScheduler/String'')]),
          (''match'', JObj [(''$ref'', JStr ''#/pScheduler/Boolean'')]),
          (''fail-message'', JObj [(''$ref'', JStr ''#/pScheduler/String'')])]),
        (''additionalProperties'', JBool False),
        (''required'', JArr [JStr ''match''])]),
      (''Cardinal'', JObj [
        (''type'', JStr ''object''),
        (''properties'', JObj [
          (''description'', JObj [(''$ref'', JStr ''#/pScheduler/String'')]),
          (''range'', JObj [(''$ref'', JStr ''#/pScheduler/CardinalRange'')]),
          (''invert'', JObj [(''$ref'', JStr ''#/pScheduler/Boolean'')])]),
        (''additionalProperties'', JBool False),
        (''required'', JArr [JStr ''range''])]),
      (''CardinalList'', JObj [
        (''type'', JStr ''object''),
        (''properties'', JObj [
          (''description'', JObj [(''$ref'', JStr ''#/pScheduler/String'')]),
          (''match'', JObj [(''$ref'', JStr ''#/pScheduler/CardinalList'')]),
          (''invert'', JObj [(''$ref'', JStr ''#/pScheduler/Boolean'')])]),
        (''additionalProperties'', JBool False),
        (''required'', JArr [JStr ''match''])]),
      (''CardinalZero'', JObj [
        (''type'', JStr ''object''),
        (''properties'', JObj [
          (''description'', JObj [(''$ref'', JStr ''#/pScheduler/String'')]),
          (''range'', JObj [(''$ref'', JStr ''#/pScheduler/CardinalZeroRange'')]),
          (''invert'', JObj [(''$ref'', JStr ''#/pScheduler/Boolean'')])]),
        (''additionalProperties'', JBool False),
        (''required'', JArr [JStr ''range''])]),
      (''CardinalZeroList'', JObj [
        (''type'', JStr ''object''),
        (''properties'', JObj [
          (''description'', JObj [(''$ref'', JStr ''#/pScheduler/String'')]),
          (''match'', JObj [(''$ref'', JStr ''#/pScheduler/CardinalZeroList'')]),
          (''invert'', JObj [(''$ref'', JStr ''#/pScheduler/Boolean'')])]),
        (''additionalProperties'', JBool False),
        (''required'', JArr [JStr ''match''])]),
      (''Duration'', JObj [
        (''type'', JStr ''object''),
        (''properties'', JObj [
          (''description'', JObj [(''$ref'', JStr ''#/pScheduler/String'')]),
          (''range'', JObj [(''$ref'', JStr ''#/pScheduler/DurationRange'')]),
          (''invert'', JObj [(''$ref'', JStr ''#/pScheduler/Boolean'')])]),
        (''additionalProperties'', JBool False),
        (''required'', JArr [JStr ''range''])]),
      (''SINumber'', JObj [
        (''properties'', JObj [
          (''description'', JObj [(''$ref'', JStr ''#/pScheduler/String'')]),
          (''range'', JObj [(''$ref'', JStr ''#/pScheduler/SINumberRange'')]),
          (''invert'', JObj [(''$ref'', JStr ''#/pScheduler/Boolean'')])]),
        (''additionalProperties'', JBool False),
        (''required'', JArr [JStr ''range''])]),
      (''IPVersion'', JObj [
        (''properties'', JObj [
          (''description'', JObj [(''$ref'', JStr ''#/pScheduler/String'')]),
          (''match'', JObj [(''$ref'', JStr ''#/pScheduler/ip-version'')]),
          (''invert'', JObj [(''$ref'', JStr ''#/pScheduler/Boolean'')])]),
        (''additionalProperties'', JBool False),
        (''required'', JArr [JStr ''version''])]),
      (''IPVersionList'', JObj [
        (''properties'', JObj [
          (''description'', JObj [(''$ref'', JStr ''#/pScheduler/String'')]),
          (''enumeration'', JObj [(''$ref'', JStr ''#/pScheduler/ip-version-list'')]),
          (''invert'', JObj [(''$ref'', JStr ''#/pScheduler/Boolean'')])]),
        (''additionalProperties'', JBool False),
        (''required'', JArr [JStr ''enumeration''])]),
      (''Probability'', JObj [
        (''properties'', JObj [
          (''description'', JObj [(''$ref'', JStr ''#/pScheduler/String'')]),
          (''range'', JObj [(''$ref'', JStr ''#/pScheduler/ProbabilityRange'')]),
          (''invert'', JObj [(''$ref'', JStr ''#/pScheduler/Boolean'')])]),
        (''additionalProperties'', JBool False),
        (''required'', JArr [JStr ''range''])]),
      (''String'', JObj [
        (''type'', JStr ''object''),
        (''properties'', JObj [
          (''description'', JObj [(''$ref'', JStr ''#/pScheduler/String'')]),
          (''match'', JObj [(''$ref'', JStr ''#/pScheduler/StringMatch'')]),
          (''fail-message'', JObj [(''$ref'', JStr ''#/pScheduler/String'')])]),
        (''additionalProperties'', JBool False),
        (''required'', JArr [JStr ''match''])])]"

definition dictionary :: "(string \<times> json) list" where
  "dictionary =
     [(''AnyJSON'', dict_AnyJSON),
      (''Array'', dict_Array),
      (''AS'', dict_AS),
      (''Boolean'', dict_Boolean),
      (''Cardinal'', dict_Cardinal),
      (''CardinalList'', dict_CardinalList),
      (''CardinalRange'', dict_CardinalRange),
      (''CardinalZero'', dict_CardinalZero),
      (''CardinalZeroList'', dict_CardinalZeroList),
      (''CardinalZeroRange'', dict_CardinalZeroRange),
      (''ClockState'', dict_ClockState),
      (''Duration'', dict_Duration),
      (''DurationRange'', dict_DurationRange),
      (''Email'', dict_Email),
      (''Float'', dict_Float),
      (''GeographicPosition'', dict_GeographicPosition),
      (''Host'', dict_Host),
      (''HostName'', dict_HostName),
      (''Integer'', dict_Integer),
      (''IPAddress'', dict_IPAddress),
      (''IPv4'', dict_IPv4),
      (''IPv6'', dict_IPv6),
      (''IPv4CIDR'', dict_IPv4CIDR),
      (''IPv6CIDR'', dict_IPv6CIDR),
      (''IPCIDR'', dict_IPCIDR),
      (''Int8'', dict_Int8),
      (''UInt8'', dict_UInt8),
      (''Int16'', dict_Int16),
      (''UInt16'', dict_UInt16),
      (''Int32'', dict_Int32),
      (''UInt32'', dict_UInt32),
      (''Int64'', dict_Int64),
      (''UInt64'', dict_UInt64),
      (''IPPort'', dict_IPPort),
      (''IPPortRange'', dict_IPPortRange),
      (''IPTOS'', dict_IPTOS),
      (''JQTransformSpecification'', dict_JQTransformSpecification),
      (''Number'', dict_Number),
      (''Numeric'', dict_Numeric),
      (''NumericRange'', dict_NumericRange),
      (''Probability'', dict_Probability),
      (''ProbabilityRange'', dict_ProbabilityRange),
      (''RetryPolicy'', dict_RetryPolicy),
      (''RetryPolicyEntry'', dict_RetryPolicyEntry),
      (''SINumber'', dict_SINumber),
      (''SINumberRange'', dict_SINumberRange),
      (''String'', dict_String),
      (''StringList'', dict_StringList),
      (''StringMatch'', dict_StringMatch),
      (''EnumMatch'', dict_EnumMatch),
      (''Timestamp'', dict_Timestamp),
      (''TimestampAbsoluteRelative'', dict_TimestampAbsoluteRelative),
      (''URL'', dict_URL),
      (''UUID'', dict_UUID),
      (''Version'', dict_Version),
      (''ArchiveSpecification'', dict_ArchiveSpecification),
      (''Maintainer'', dict_Maintainer),
      (''NameVersion'', dict_NameVersion),
      (''ParticipantResult'', dict_ParticipantResult),
      (''RunResult'', dict_RunResult),
      (''ScheduleSpecification'', dict_ScheduleSpecification),
      (''TaskSpecification'', dict_TaskSpecification),
      (''TestSpecification'', dict_TestSpecification),
      (''TimeRange'', dict_TimeRange),
      (''icmp-error'', dict_icmp_error),
      (''ip-version'', dict_ip_version),
      (''ip-version-list'', dict_ip_version_list),
      (''Limit'', dict_Limit)]"

text \<open>\<open>__default_schema__\<close>.\<close>

definition default_schema :: "(string \<times> slot) list" where
  "default_schema =
     [(''$schema'', Val (JStr ''http://json-schema.org/draft-04/schema#'')),
      (''id'', Val (JStr ''http://perfsonar.net/pScheduler/json_generic.json'')),
      (''title'', Val (JStr ''pScheduler Generic Validation Schema'')),
      (''type'', Val (JStr ''object'')),
      (''additionalProperties'', Val (JBool False)),
      (''pScheduler'', Dictionary_ref)]"

text \<open>The state when the module has been loaded and no call has been made.\<close>

definition module_state :: pystate where
  "module_state =
     \<lparr>g_dictionary = dictionary, g_default_schema = default_schema, heap = []\<rparr>"

subsection \<open>The interface of the \<open>jsonschema\<close> library\<close>

text \<open>
  A \<open>ValidationError\<close> carries the engine's message, the path to the offending value
  (property names and array indices), the subschema that rejected it and the offending
  value. \<open>validate\<close> raises the first such error, returns, or raises something else;
  \<open>check_schema\<close> returns or raises.
\<close>

datatype path_elem = Key string | Index nat

datatype validation_error =
  ValidationError (ex_message: string) (ex_absolute_path: "path_elem list")
    (ex_schema: json) (ex_instance: json)

datatype verdict = Passed | Failed validation_error | Raised error

record engine =
  check_schema :: "json \<Rightarrow> error option"
  validate :: "json \<Rightarrow> json \<Rightarrow> verdict"

subsection \<open>\<open>json_validate\<close>\<close>

text \<open>The keys the loop copies from the skeleton, in its order.\<close>

definition elements :: "string list" where
  "elements = [''type'', ''items'', ''properties'', ''additionalProperties'',
               ''required'', ''local'']"

text \<open>Building the schema: the shallow copy of the default schema and the loop over
  \<open>elements\<close>. The result is the reference to the new object and the state.\<close>

definition build_schema :: "pystate \<Rightarrow> (string \<times> json) list \<Rightarrow> pyref \<times> pystate" where
  "build_schema st skeleton =
     (let (schema, st1) = copy_copy st Default_schema
      in (schema,
          foldl (\<lambda>s element.
                   case map_of skeleton element of
                     Some v \<Rightarrow> setitem s schema element (Val v)
                   | None \<Rightarrow> s)
                st1 elements))"

text \<open>\<open>str(x)\<close> for an element of the path.\<close>

fun str_elem :: "path_elem \<Rightarrow> string" where
  "str_elem (Key k) = k"
| "str_elem (Index i) = str_nat i"

text \<open>
  The message of a validation error:
  \<open>ex.schema["x-invalid-message"].replace("%s", ex.instance)\<close>, and \<open>ex.message\<close> when
  the subscript raises \<open>KeyError\<close>. Only \<open>KeyError\<close> is caught: subscripting something
  that is not a dictionary raises \<open>TypeError\<close>, a value without \<open>replace\<close> raises
  \<open>AttributeError\<close>, and \<open>replace\<close> raises \<open>TypeError\<close> when its second argument is
  not a string.
\<close>

definition invalid_message :: "validation_error \<Rightarrow> error + string" where
  "invalid_message ex =
     (case ex_schema ex of
        JObj d \<Rightarrow>
          (case map_of d ''x-invalid-message'' of
             None \<Rightarrow> Inr (ex_message ex)
           | Some (JStr template) \<Rightarrow>
               (case ex_instance ex of
                  JStr v \<Rightarrow> Inr (replace ''%s'' v template)
                | _ \<Rightarrow> Inl TypeError)
           | Some _ \<Rightarrow> Inl AttributeError)
      | _ \<Rightarrow> Inl TypeError)"

text \<open>The result pair of a validation error whose message is known.\<close>

definition report :: "path_elem list \<Rightarrow> string \<Rightarrow> bool \<times> string" where
  "report absolute_path message =
     (if length absolute_path > 0
      then (False, ''At /'' @ join ''/'' (map str_elem absolute_path) @ '': '' @ message)
      else (False, message))"

definition json_validate ::
  "engine \<Rightarrow> pystate \<Rightarrow> json \<Rightarrow> json \<Rightarrow> (error + bool \<times> string) \<times> pystate" where
  "json_validate lib st json skeleton =
     (case json of
        JObj _ \<Rightarrow>
          (case skeleton of
             JObj sk \<Rightarrow>
               (let (schema, st1) = build_schema st sk;
                    composed = view st1 schema
                in case check_schema lib composed of
                     Some e \<Rightarrow> (Inl e, st1)
                   | None \<Rightarrow>
                       (case validate lib json composed of
                          Passed \<Rightarrow> (Inr (True, ''OK''), st1)
                        | Raised e \<Rightarrow> (Inl e, st1)
                        | Failed ex \<Rightarrow>
                            (case invalid_message ex of
                               Inl e \<Rightarrow> (Inl e, st1)
                             | Inr message \<Rightarrow>
                                 (Inr (report (ex_absolute_path ex) message), st1))))
           | _ \<Rightarrow> (Inl (ValueError ''Skeleton provided must be a dictionary.''), st))
      | _ \<Rightarrow> (Inl (ValueError ''JSON provided must be a dictionary.''), st))"

subsection \<open>The composed schema\<close>

text \<open>The slots of the schema object after the loop: the slots of the default schema
  with each key of \<open>elements\<close> that the skeleton has set to the skeleton's value.\<close>

definition overlay ::
  "(string \<times> slot) list \<Rightarrow> (string \<times> json) list \<Rightarrow> (string \<times> slot) list" where
  "overlay d skeleton =
     foldl (\<lambda>d element.
              case map_of skeleton element of
                Some v \<Rightarrow> AList.update element (Val v) d
              | None \<Rightarrow> d)
           d elements"

text \<open>The schema that \<open>json_validate\<close> hands to the library: the new object as a reader
  sees it.\<close>

definition composed_schema :: "pystate \<Rightarrow> (string \<times> json) list \<Rightarrow> json" where
  "composed_schema st skeleton =
     (let (schema, st1) = build_schema st skeleton in view st1 schema)"

text \<open>\<open>obj.get(k)\<close> on a dictionary.\<close>

definition member :: "json \<Rightarrow> string \<Rightarrow> json option" where
  "member obj k = (case obj of JObj kvs \<Rightarrow> map_of kvs k | _ \<Rightarrow> None)"

subsection \<open>A draft-4 engine for the keywords of the bounded and record types\<close>

text \<open>
  The remaining definitions of this part stand for the \<open>jsonschema\<close> library, which the
  module imports and does not contain. They cover \<open>$ref\<close>, \<open>type\<close>, \<open>minimum\<close>,
  \<open>maximum\<close>, \<open>required\<close>, \<open>properties\<close>, \<open>additionalProperties\<close> and \<open>items\<close>; on any
  other validation keyword of draft 4 the engine raises \<open>Unsupported\<close> instead of
  guessing. Recursion is bounded by a limit, as Python bounds it: at the limit the engine
  raises \<open>RecursionError\<close>.
\<close>

text \<open>Modelled from the spec: stop-on-first-failure (section 4.3): the first element
  whose check does not pass decides, and the rest is not looked at.\<close>

fun first_failure :: "('a \<Rightarrow> verdict) \<Rightarrow> 'a list \<Rightarrow> verdict" where
  "first_failure f [] = Passed"
| "first_failure f (x # xs) = (case f x of Passed \<Rightarrow> first_failure f xs | v \<Rightarrow> v)"

text \<open>Modelled from the spec: the type checks of section 4.3. \<open>None\<close> is an unknown type
  name. A truth value is neither an integer nor a number; a float is a number and not
  an integer.\<close>

definition is_type :: "json \<Rightarrow> string \<Rightarrow> bool option" where
  "is_type inst t =
     (if t = ''array'' then Some (case inst of JArr _ \<Rightarrow> True | _ \<Rightarrow> False)
      else if t = ''boolean'' then Some (case inst of JBool _ \<Rightarrow> True | _ \<Rightarrow> False)
      else if t = ''integer'' then Some (case inst of JInt _ \<Rightarrow> True | _ \<Rightarrow> False)
      else if t = ''null'' then Some (case inst of JNull \<Rightarrow> True | _ \<Rightarrow> False)
      else if t = ''number''
        then Some (case inst of JInt _ \<Rightarrow> True | JFloat _ \<Rightarrow> True | _ \<Rightarrow> False)
      else if t = ''object'' then Some (case inst of JObj _ \<Rightarrow> True | _ \<Rightarrow> False)
      else if t = ''string'' then Some (case inst of JStr _ \<Rightarrow> True | _ \<Rightarrow> False)
      else None)"

text \<open>Modelled from the spec: the textual representation of a value in the engine's
  default messages (section 4.4), Python's \<open>repr\<close>. It is given where the text does not
  depend on the Python version or on escaping: \<open>None\<close>, truth values, integers of the
  machine range, strings of printable characters without quote and backslash, and
  arrays and records of these.\<close>

definition plain_char :: "char \<Rightarrow> bool" where
  "plain_char c \<longleftrightarrow>
     32 \<le> (of_char c :: nat) \<and> (of_char c :: nat) < 127 \<and> c \<noteq> CHR 0x27 \<and> c \<noteq> CHR 0x5C"

definition str_int :: "int \<Rightarrow> string" where
  "str_int i = (if i < 0 then ''-'' @ str_nat (nat (- i)) else str_nat (nat i))"

definition repr_str :: "string \<Rightarrow> string option" where
  "repr_str s = (if list_all plain_char s then Some ([CHR 0x27] @ s @ [CHR 0x27]) else None)"

fun py_repr :: "json \<Rightarrow> string option" where
  "py_repr JNull = Some ''None''"
| "py_repr (JBool b) = Some (if b then ''True'' else ''False'')"
| "py_repr (JInt i) =
     (if - (2 ^ 63) \<le> i \<and> i < 2 ^ 63 then Some (str_int i) else None)"
| "py_repr (JFloat r) = None"
| "py_repr (JStr s) = repr_str s"
| "py_repr (JArr xs) =
     map_option (\<lambda>rs. ''['' @ join '', '' rs @ '']'') (those (map py_repr xs))"
| "py_repr (JObj kvs) =
     map_option (\<lambda>rs. ''{'' @ join '', '' rs @ ''}'')
       (those (map (\<lambda>(k, v).
          case repr_str k of
            None \<Rightarrow> None
          | Some rk \<Rightarrow> map_option (\<lambda>rv. rk @ '': '' @ rv) (py_repr v)) kvs))"

text \<open>Modelled from the spec: the first validation failure (section 4.4): its message,
  its path, the rejecting subschema and the offending value. Without a text for the
  message the engine gives up.\<close>

definition failure ::
  "string option \<Rightarrow> path_elem list \<Rightarrow> (string \<times> json) list \<Rightarrow> json \<Rightarrow> verdict" where
  "failure text path schema inst =
     (case text of
        Some m \<Rightarrow> Failed (ValidationError m path (JObj schema) inst)
      | None \<Rightarrow> Raised (Unsupported ''repr''))"

text \<open>Modelled from the spec: reference resolution (sections 4.3 and 9): a reference
  \<open>#/a/b\<close> is followed from the composed schema as a whole through its records.
  References to other documents, through arrays or with escaped characters are
  declined.\<close>

fun split_on :: "char \<Rightarrow> string \<Rightarrow> string list" where
  "split_on c [] = [[]]"
| "split_on c (x # xs) =
     (if x = c then [] # split_on c xs
      else (case split_on c xs of [] \<Rightarrow> [[x]] | p # ps \<Rightarrow> (x # p) # ps))"

fun resolve_fragment :: "json \<Rightarrow> string list \<Rightarrow> error + json" where
  "resolve_fragment document [] = Inr document"
| "resolve_fragment document (part # parts) =
     (case document of
        JObj kvs \<Rightarrow>
          (case map_of kvs part of
             Some d \<Rightarrow> resolve_fragment d parts
           | None \<Rightarrow> Inl RefResolutionError)
      | JArr _ \<Rightarrow> Inl (Unsupported ''$ref'')
      | _ \<Rightarrow> Inl RefResolutionError)"

definition resolve :: "json \<Rightarrow> json \<Rightarrow> error + json" where
  "resolve whole ref =
     (case ref of
        JStr (c # fragment) \<Rightarrow>
          (if c = CHR ''#'' \<and> CHR ''~'' \<notin> set fragment \<and> CHR ''%'' \<notin> set fragment
           then let rest = dropWhile (\<lambda>x. x = CHR ''/'') fragment
                in resolve_fragment whole (if rest = [] then [] else split_on CHR ''/'' rest)
           else Inl (Unsupported ''$ref''))
      | _ \<Rightarrow> Inl (Unsupported ''$ref''))"

text \<open>Modelled from the spec: numeric range checks (section 4.3). A bound excludes
  itself when the sibling \<open>exclusiveMinimum\<close> or \<open>exclusiveMaximum\<close> is true.\<close>

definition num :: "json \<Rightarrow> rat option" where
  "num j = (case j of JInt i \<Rightarrow> Some (of_int i) | JFloat r \<Rightarrow> Some r | _ \<Rightarrow> None)"

definition exclusive :: "(string \<times> json) list \<Rightarrow> string \<Rightarrow> bool option" where
  "exclusive schema k =
     (case map_of schema k of
        None \<Rightarrow> Some False
      | Some (JBool b) \<Rightarrow> Some b
      | Some _ \<Rightarrow> None)"

definition bound_message :: "json \<Rightarrow> string \<Rightarrow> json \<Rightarrow> string option" where
  "bound_message inst wording bound =
     (case (py_repr inst, py_repr bound) of
        (Some i, Some b) \<Rightarrow> Some (i @ wording @ b)
      | _ \<Rightarrow> None)"

definition minimum_kw ::
  "(string \<times> json) list \<Rightarrow> json \<Rightarrow> json \<Rightarrow> path_elem list \<Rightarrow> verdict" where
  "minimum_kw schema minimum inst path =
     (case num inst of
        None \<Rightarrow> Passed
      | Some x \<Rightarrow>
          (case (num minimum, exclusive schema ''exclusiveMinimum'') of
             (Some m, Some True) \<Rightarrow>
               (if x \<le> m
                then failure (bound_message inst
                       '' is less than or equal to the minimum of '' minimum) path schema inst
                else Passed)
           | (Some m, Some False) \<Rightarrow>
               (if x < m
                then failure (bound_message inst
                       '' is less than the minimum of '' minimum) path schema inst
                else Passed)
           | _ \<Rightarrow> Raised (Unsupported ''minimum'')))"

definition maximum_kw ::
  "(string \<times> json) list \<Rightarrow> json \<Rightarrow> json \<Rightarrow> path_elem list \<Rightarrow> verdict" where
  "maximum_kw schema maximum inst path =
     (case num inst of
        None \<Rightarrow> Passed
      | Some x \<Rightarrow>
          (case (num maximum, exclusive schema ''exclusiveMaximum'') of
             (Some m, Some True) \<Rightarrow>
               (if x \<ge> m
                then failure (bound_message inst
                       '' is greater than or equal to the maximum of '' maximum) path schema inst
                else Passed)
           | (Some m, Some False) \<Rightarrow>
               (if x > m
                then failure (bound_message inst
                       '' is greater than the maximum of '' maximum) path schema inst
                else Passed)
           | _ \<Rightarrow> Raised (Unsupported ''maximum'')))"

text \<open>Modelled from the spec: the \<open>type\<close> check. The keyword holds one type name or a
  list of them; the names are tried in order until one fits.\<close>

fun any_type :: "json \<Rightarrow> json list \<Rightarrow> error + bool" where
  "any_type inst [] = Inr False"
| "any_type inst (t # ts) =
     (case t of
        JStr name \<Rightarrow>
          (case is_type inst name of
             None \<Rightarrow> Inl UnknownType
           | Some True \<Rightarrow> Inr True
           | Some False \<Rightarrow> any_type inst ts)
      | _ \<Rightarrow> Inl UnknownType)"

definition type_kw ::
  "(string \<times> json) list \<Rightarrow> json \<Rightarrow> json \<Rightarrow> path_elem list \<Rightarrow> verdict" where
  "type_kw schema types inst path =
     (let ts = (case types of JArr ts \<Rightarrow> ts | t \<Rightarrow> [t])
      in case any_type inst ts of
           Inl e \<Rightarrow> Raised e
         | Inr True \<Rightarrow> Passed
         | Inr False \<Rightarrow>
             failure
               (case (py_repr inst, those (map py_repr ts)) of
                  (Some i, Some names) \<Rightarrow> Some (i @ '' is not of type '' @ join '', '' names)
                | _ \<Rightarrow> None)
               path schema inst)"

text \<open>Modelled from the spec: \<open>required\<close> field presence (section 4.3).\<close>

definition required_kw ::
  "(string \<times> json) list \<Rightarrow> json \<Rightarrow> json \<Rightarrow> path_elem list \<Rightarrow> verdict" where
  "required_kw schema required inst path =
     (case inst of
        JObj members \<Rightarrow>
          (case required of
             JArr names \<Rightarrow>
               first_failure
                 (\<lambda>name. case name of
                    JStr property \<Rightarrow>
                      (if map_of members property = None
                       then failure
                              (map_option (\<lambda>r. r @ '' is a required property'') (py_repr name))
                              path schema inst
                       else Passed)
                  | _ \<Rightarrow> Raised (Unsupported ''required''))
                 names
           | _ \<Rightarrow> Raised (Unsupported ''required''))
      | _ \<Rightarrow> Passed)"

text \<open>Modelled from the spec: \<open>additionalProperties\<close> (section 4.3): with the value
  false, a record is rejected when it has a field that \<open>properties\<close> does not name; with
  a schema, each such field is checked against it.\<close>

definition additionalProperties_kw ::
  "(json \<Rightarrow> json \<Rightarrow> path_elem list \<Rightarrow> verdict) \<Rightarrow>
   (string \<times> json) list \<Rightarrow> json \<Rightarrow> json \<Rightarrow> path_elem list \<Rightarrow> verdict" where
  "additionalProperties_kw descend schema aP inst path =
     (case inst of
        JObj members \<Rightarrow>
          (if map_of schema ''patternProperties'' \<noteq> None
           then Raised (Unsupported ''patternProperties'')
           else case (case map_of schema ''properties'' of
                        None \<Rightarrow> Some []
                      | Some (JObj props) \<Rightarrow> Some props
                      | Some _ \<Rightarrow> None) of
                  None \<Rightarrow> Raised (Unsupported ''properties'')
                | Some props \<Rightarrow>
                    (let extras = filter (\<lambda>(k, v). map_of props k = None) members
                     in case aP of
                          JObj _ \<Rightarrow>
                            first_failure (\<lambda>(k, v). descend aP v (path @ [Key k])) extras
                        | JBool True \<Rightarrow> Passed
                        | JBool False \<Rightarrow>
                            (if extras = [] then Passed
                             else failure
                                    (map_option
                                       (\<lambda>rs. ''Additional properties are not allowed ('' @
                                             join '', '' rs @
                                             (if length extras = 1 then '' was'' else '' were'') @
                                             '' unexpected)'')
                                       (those (map (\<lambda>(k, v). repr_str k) extras)))
                                    path schema inst)
                        | _ \<Rightarrow> Raised (Unsupported ''additionalProperties'')))
      | _ \<Rightarrow> Passed)"

text \<open>Modelled from the spec: \<open>properties\<close> and \<open>items\<close> (section 4.3): each field the
  record has is checked against its schema, in the order of the schema; each element of
  an array is checked against the item schema, in the order of the array.\<close>

definition properties_kw ::
  "(json \<Rightarrow> json \<Rightarrow> path_elem list \<Rightarrow> verdict) \<Rightarrow>
   json \<Rightarrow> json \<Rightarrow> path_elem list \<Rightarrow> verdict" where
  "properties_kw descend properties inst path =
     (case inst of
        JObj members \<Rightarrow>
          (case properties of
             JObj props \<Rightarrow>
               first_failure
                 (\<lambda>(property, subschema).
                    case map_of members property of
                      Some x \<Rightarrow> descend subschema x (path @ [Key property])
                    | None \<Rightarrow> Passed)
                 props
           | _ \<Rightarrow> Raised (Unsupported ''properties''))
      | _ \<Rightarrow> Passed)"

definition items_kw ::
  "(json \<Rightarrow> json \<Rightarrow> path_elem list \<Rightarrow> verdict) \<Rightarrow>
   json \<Rightarrow> json \<Rightarrow> path_elem list \<Rightarrow> verdict" where
  "items_kw descend items inst path =
     (case inst of
        JArr xs \<Rightarrow>
          (case items of
             JObj _ \<Rightarrow>
               first_failure (\<lambda>(i, x). descend items x (path @ [Index i])) (enumerate 0 xs)
           | _ \<Rightarrow> Raised (Unsupported ''items''))
      | _ \<Rightarrow> Passed)"

text \<open>Modelled from the spec: the validation keywords of draft 4 (section 4.3) that
  the engine declines.\<close>

definition declined :: "string list" where
  "declined = [''additionalItems'', ''allOf'', ''anyOf'', ''dependencies'', ''enum'',
               ''format'', ''maxItems'', ''maxLength'', ''maxProperties'', ''minItems'',
               ''minLength'', ''minProperties'', ''multipleOf'', ''not'', ''oneOf'',
               ''patternProperties'', ''uniqueItems'']"

text \<open>Modelled from the spec: one keyword of a schema applied to a value (section 4.3).
  A pattern concerns strings only; matching one is declined. A key that is not a
  validation keyword is ignored.\<close>

definition keyword ::
  "(json \<Rightarrow> json \<Rightarrow> path_elem list \<Rightarrow> verdict) \<Rightarrow>
   (string \<times> json) list \<Rightarrow> string \<Rightarrow> json \<Rightarrow> json \<Rightarrow> path_elem list \<Rightarrow> verdict" where
  "keyword descend schema k v inst path =
     (if k = ''type'' then type_kw schema v inst path
      else if k = ''minimum'' then minimum_kw schema v inst path
      else if k = ''maximum'' then maximum_kw schema v inst path
      else if k = ''required'' then required_kw schema v inst path
      else if k = ''properties'' then properties_kw descend v inst path
      else if k = ''additionalProperties''
        then additionalProperties_kw descend schema v inst path
      else if k = ''items'' then items_kw descend v inst path
      else if k = ''pattern''
        then (case inst of JStr _ \<Rightarrow> Raised (Unsupported ''pattern'') | _ \<Rightarrow> Passed)
      else if k \<in> set declined then Raised (Unsupported k)
      else Passed)"

text \<open>Modelled from the spec: the walk of section 4.3. A schema with \<open>$ref\<close> is replaced
  by the schema the reference resolves to; otherwise its keywords are applied in order.
  A subschema that declares an \<open>id\<close> of its own would change how references resolve,
  which the engine declines.\<close>

primrec validate_at ::
  "nat \<Rightarrow> json \<Rightarrow> json \<Rightarrow> json \<Rightarrow> path_elem list \<Rightarrow> verdict" where
  "validate_at 0 whole schema inst path = Raised RecursionError"
| "validate_at (Suc limit) whole schema inst path =
     (case schema of
        JObj kvs \<Rightarrow>
          (if map_of kvs ''id'' \<noteq> None \<and> schema \<noteq> whole then Raised (Unsupported ''id'')
           else case map_of kvs ''$ref'' of
                  Some ref \<Rightarrow>
                    (case resolve whole ref of
                       Inl e \<Rightarrow> Raised e
                     | Inr resolved \<Rightarrow> validate_at limit whole resolved inst path)
                | None \<Rightarrow>
                    first_failure
                      (\<lambda>(k, v). keyword (validate_at limit whole) kvs k v inst path) kvs)
      | _ \<Rightarrow> Raised AttributeError)"

text \<open>Modelled from the spec: the self-check of section 4.3 (step 1), for the keywords
  above: well-formed \<open>type\<close>, \<open>required\<close>, bounds and nested schemas. Keys that are not
  keywords of draft 4, such as \<open>pScheduler\<close> and \<open>local\<close>, are not looked into.\<close>

definition simple_types :: "string list" where
  "simple_types = [''array'', ''boolean'', ''integer'', ''null'', ''number'', ''object'',
                   ''string'']"

definition string_array :: "json \<Rightarrow> string list \<Rightarrow> bool" where
  "string_array j allowed =
     (case j of
        JArr xs \<Rightarrow>
          xs \<noteq> [] \<and> distinct xs \<and>
          list_all (\<lambda>x. case x of JStr s \<Rightarrow> allowed = [] \<or> s \<in> set allowed | _ \<Rightarrow> False) xs
      | _ \<Rightarrow> False)"

definition raise_unless :: "bool \<Rightarrow> error option" where
  "raise_unless ok = (if ok then None else Some SchemaError)"

fun first_error :: "('a \<Rightarrow> error option) \<Rightarrow> 'a list \<Rightarrow> error option" where
  "first_error f [] = None"
| "first_error f (x # xs) = (case f x of None \<Rightarrow> first_error f xs | Some e \<Rightarrow> Some e)"

definition check_keyword ::
  "(json \<Rightarrow> error option) \<Rightarrow> (string \<times> json) list \<Rightarrow> string \<Rightarrow> json \<Rightarrow> error option" where
  "check_keyword check schema k v =
     (if k \<in> set [''id'', ''$schema'', ''title'', ''description'', ''pattern'']
        then raise_unless (case v of JStr _ \<Rightarrow> True | _ \<Rightarrow> False)
      else if k = ''type''
        then raise_unless
               ((case v of JStr s \<Rightarrow> s \<in> set simple_types | _ \<Rightarrow> False) \<or>
                string_array v simple_types)
      else if k = ''minimum'' \<or> k = ''maximum'' then raise_unless (num v \<noteq> None)
      else if k = ''exclusiveMinimum''
        then raise_unless
               ((case v of JBool _ \<Rightarrow> True | _ \<Rightarrow> False) \<and> map_of schema ''minimum'' \<noteq> None)
      else if k = ''exclusiveMaximum''
        then raise_unless
               ((case v of JBool _ \<Rightarrow> True | _ \<Rightarrow> False) \<and> map_of schema ''maximum'' \<noteq> None)
      else if k = ''required'' then raise_unless (string_array v [])
      else if k = ''properties'' \<or> k = ''definitions''
        then (case v of
                JObj subs \<Rightarrow> first_error (\<lambda>(name, sub). check sub) subs
              | _ \<Rightarrow> Some SchemaError)
      else if k = ''items''
        then (case v of
                JArr subs \<Rightarrow> (if subs = [] then Some SchemaError else first_error check subs)
              | _ \<Rightarrow> check v)
      else if k = ''additionalProperties''
        then (case v of JBool _ \<Rightarrow> None | _ \<Rightarrow> check v)
      else if k = ''default'' then None
      else if k \<in> set declined then Some (Unsupported k)
      else None)"

primrec check_at :: "nat \<Rightarrow> json \<Rightarrow> error option" where
  "check_at 0 schema = Some RecursionError"
| "check_at (Suc limit) schema =
     (case schema of
        JObj kvs \<Rightarrow> first_error (\<lambda>(k, v). check_keyword (check_at limit) kvs k v) kvs
      | _ \<Rightarrow> Some SchemaError)"

text \<open>Modelled from the spec: the validator of section 4.3 as \<open>json_validate\<close> calls it:
  the self-check, and the walk from the composed schema with an empty path.\<close>

definition draft4 :: "nat \<Rightarrow> engine" where
  "draft4 limit =
     \<lparr>check_schema = check_at limit,
      validate = (\<lambda>inst schema. validate_at limit schema schema inst [])\<rparr>"

section \<open>Properties\<close>

subsection \<open>What a call does to the state, and what schema it composes\<close>

text \<open>
  The loop writes into the copy only: after it, the state is the old one with one more
  object, whose slots are the overlay of the skeleton on the default schema.
\<close>

lemma foldl_setitem:
  "length h = n \<Longrightarrow>
   foldl (\<lambda>s element. case map_of sk element of
                         Some v \<Rightarrow> setitem s (Heap n) element (Val v)
                       | None \<Rightarrow> s)
         (st\<lparr>heap := h @ [d]\<rparr>) es =
   st\<lparr>heap := h @ [foldl (\<lambda>d element. case map_of sk element of
                                           Some v \<Rightarrow> AList.update element (Val v) d
                                         | None \<Rightarrow> d) d es]\<rparr>"
proof (induction es arbitrary: d)
  case Nil
  then show ?case by simp
next
  case (Cons e es)
  show ?case
  proof (cases "map_of sk e")
    case None
    with Cons show ?thesis by simp
  next
    case (Some v)
    have "setitem (st\<lparr>heap := h @ [d]\<rparr>) (Heap n) e (Val v) =
          st\<lparr>heap := h @ [AList.update e (Val v) d]\<rparr>"
      using Cons.prems [symmetric] by (simp add: setitem_def getobj_def nth_append)
    with Some Cons show ?thesis by simp
  qed
qed

lemma build_schema_eq:
  "build_schema st sk =
     (Heap (length (heap st)), st\<lparr>heap := heap st @ [overlay (g_default_schema st) sk]\<rparr>)"
  unfolding build_schema_def copy_copy_def overlay_def
  by (simp add: foldl_setitem getobj_def)

lemma slot_value_heap: "slot_value (st\<lparr>heap := h\<rparr>) = slot_value st"
  by (simp add: fun_eq_iff slot_value_def split: slot.splits)

lemma composed_schema_eq:
  "composed_schema st sk =
     JObj (map (\<lambda>(k, s). (k, slot_value st s)) (overlay (g_default_schema st) sk))"
  by (simp add: composed_schema_def build_schema_eq view_def getobj_def slot_value_heap)

lemma json_validate_dict:
  "json_validate lib st (JObj j) (JObj sk) =
     (case check_schema lib (composed_schema st sk) of
        Some e \<Rightarrow> Inl e
      | None \<Rightarrow>
          (case validate lib (JObj j) (composed_schema st sk) of
             Passed \<Rightarrow> Inr (True, ''OK'')
           | Raised e \<Rightarrow> Inl e
           | Failed ex \<Rightarrow>
               (case invalid_message ex of
                  Inl e \<Rightarrow> Inl e
                | Inr m \<Rightarrow> Inr (report (ex_absolute_path ex) m))),
      st\<lparr>heap := heap st @ [overlay (g_default_schema st) sk]\<rparr>)"
  by (simp add: json_validate_def composed_schema_def build_schema_eq
           split: option.splits verdict.splits sum.splits)

lemma json_validate_snd:
  "snd (json_validate lib st json skeleton) =
     (case (json, skeleton) of
        (JObj j, JObj sk) \<Rightarrow> st\<lparr>heap := heap st @ [overlay (g_default_schema st) sk]\<rparr>
      | _ \<Rightarrow> st)"
  by (cases json; cases skeleton)
     (simp_all add: json_validate_dict, simp_all add: json_validate_def)

lemma json_validate_state:
  "snd (json_validate lib st json skeleton) = st \<or>
   (\<exists>obj. snd (json_validate lib st json skeleton) = st\<lparr>heap := heap st @ [obj]\<rparr>)"
  unfolding json_validate_snd by (cases json; cases skeleton) auto

text \<open>
  The overlay, key by key.
\<close>

lemma map_of_foldl_update:
  "map_of (foldl (\<lambda>d element. case map_of sk element of
                                 Some v \<Rightarrow> AList.update element (Val v) d
                               | None \<Rightarrow> d) d es) k =
   (if k \<in> set es \<and> map_of sk k \<noteq> None then map_option Val (map_of sk k) else map_of d k)"
  by (induction es arbitrary: d) (auto simp: AList.update_conv' split: option.splits)

lemma map_of_overlay:
  "map_of (overlay d sk) k =
   (if k \<in> set elements \<and> map_of sk k \<noteq> None then map_option Val (map_of sk k) else map_of d k)"
  unfolding overlay_def by (rule map_of_foldl_update)

lemma distinct_foldl_update:
  "distinct (map fst d) \<Longrightarrow>
   distinct (map fst (foldl (\<lambda>d element. case map_of sk element of
                                 Some v \<Rightarrow> AList.update element (Val v) d
                               | None \<Rightarrow> d) d es))"
  by (induction es arbitrary: d) (auto simp: AList.distinct_update split: option.splits)

lemma distinct_overlay: "distinct (map fst d) \<Longrightarrow> distinct (map fst (overlay d sk))"
  unfolding overlay_def by (rule distinct_foldl_update)

lemma member_composed_schema:
  "member (composed_schema st sk) k =
   (if k \<in> set elements \<and> map_of sk k \<noteq> None then map_of sk k
    else member (view st Default_schema) k)"
  by (cases "map_of sk k")
     (simp_all add: member_def composed_schema_eq view_def getobj_def map_of_map map_of_overlay
        slot_value_def)

lemma map_of_filter_key:
  "P k \<Longrightarrow> map_of (filter (\<lambda>kv. P (fst kv)) xs) k = map_of xs k"
  by (induction xs) auto

lemma overlay_cong:
  "(\<And>e. e \<in> set elements \<Longrightarrow> map_of sk e = map_of sk' e) \<Longrightarrow> overlay d sk = overlay d sk'"
  unfolding overlay_def by (rule foldl_cong) auto

lemma overlay_filter:
  "overlay d (filter (\<lambda>kv. fst kv \<in> set elements) sk) = overlay d sk"
  by (rule overlay_cong) (simp add: map_of_filter_key [where P = "\<lambda>k. k \<in> set elements"])

lemma composed_schema_filter:
  "composed_schema st (filter (\<lambda>kv. fst kv \<in> set elements) sk) = composed_schema st sk"
  by (simp add: composed_schema_eq overlay_filter)

text \<open>
  The composed schema, and with it the result, depends on the state only through the two
  module-level objects.
\<close>

lemma composed_schema_globals:
  assumes "g_dictionary st' = g_dictionary st" and "g_default_schema st' = g_default_schema st"
  shows "composed_schema st' sk = composed_schema st sk"
proof -
  have "slot_value st' = slot_value st"
    using assms by (simp add: fun_eq_iff slot_value_def split: slot.splits)
  with assms show ?thesis by (simp add: composed_schema_eq)
qed

lemma json_validate_globals:
  assumes "g_dictionary st' = g_dictionary st" and "g_default_schema st' = g_default_schema st"
  shows "fst (json_validate lib st' json skeleton) = fst (json_validate lib st json skeleton)"
proof (cases json)
  case j: (JObj kvs)
  show ?thesis
  proof (cases skeleton)
    case (JObj sk)
    show ?thesis
      unfolding j JObj json_validate_dict composed_schema_globals [OF assms] by simp
  qed (simp_all add: j json_validate_def)
qed (simp_all add: json_validate_def)

text \<open>
  The result pair of a reported failure.
\<close>

lemma report_False: "fst (report p m) = False"
  by (simp add: report_def)

lemma report_text:
  "report p m =
     (False, if p = [] then m else ''At /'' @ join ''/'' (map str_elem p) @ '': '' @ m)"
  by (simp add: report_def)

subsection \<open>Evaluating the draft-4 engine\<close>

text \<open>An array index in a path is printed in decimal, as \<open>str\<close> prints it.\<close>

lemma str_nat_examples:
  "str_nat 0 = ''0''" "str_nat 7 = ''7''" "str_nat 10 = ''10''" "str_nat 123 = ''123''"
  by (simp_all add: str_nat.simps digit_def)

text \<open>
  Unfolding one level of the walk and of the self-check at a numeral limit, and the
  entries of the dictionary that the examples refer to.
\<close>

lemma validate_at_numeral:
  "validate_at (numeral n) whole schema inst path =
     (case schema of
        JObj kvs \<Rightarrow>
          (if map_of kvs ''id'' \<noteq> None \<and> schema \<noteq> whole then Raised (Unsupported ''id'')
           else case map_of kvs ''$ref'' of
                  Some ref \<Rightarrow>
                    (case resolve whole ref of
                       Inl e \<Rightarrow> Raised e
                     | Inr resolved \<Rightarrow> validate_at (pred_numeral n) whole resolved inst path)
                | None \<Rightarrow>
                    first_failure
                      (\<lambda>(k, v). keyword (validate_at (pred_numeral n) whole) kvs k v inst path) kvs)
      | _ \<Rightarrow> Raised AttributeError)"
  by (simp add: numeral_eq_Suc)

lemma check_at_numeral:
  "check_at (numeral n) schema =
     (case schema of
        JObj kvs \<Rightarrow> first_error (\<lambda>(k, v). check_keyword (check_at (pred_numeral n)) kvs k v) kvs
      | _ \<Rightarrow> Some SchemaError)"
  by (simp add: numeral_eq_Suc)

lemmas engine_defs =
  draft4_def validate_at_numeral check_at_numeral check_keyword_def raise_unless_def
  string_array_def simple_types_def declined_def keyword_def type_kw_def minimum_kw_def
  maximum_kw_def required_kw_def additionalProperties_kw_def properties_kw_def items_kw_def
  failure_def bound_message_def exclusive_def num_def resolve_def is_type_def
  repr_str_def plain_char_def str_int_def str_nat.simps digit_def

lemmas call_defs =
  json_validate_dict composed_schema_eq overlay_def elements_def module_state_def
  default_schema_def slot_value_def invalid_message_def report_def

lemma lookup_Duration: "map_of dictionary ''Duration'' = Some dict_Duration"
  by (simp add: dictionary_def)

lemma lookup_UInt64: "map_of dictionary ''UInt64'' = Some dict_UInt64"
  by (simp add: dictionary_def)

lemma lookup_RetryPolicy: "map_of dictionary ''RetryPolicy'' = Some dict_RetryPolicy"
  by (simp add: dictionary_def)

lemma lookup_RetryPolicyEntry: "map_of dictionary ''RetryPolicyEntry'' = Some dict_RetryPolicyEntry"
  by (simp add: dictionary_def)

lemma lookup_Cardinal: "map_of dictionary ''Cardinal'' = Some dict_Cardinal"
  by (simp add: dictionary_def)

subsection \<open>Arguments that are not dictionaries (C6)\<close>

text \<open>
  C6. When the instance is not a dictionary, or the skeleton is not a dictionary,
  \<open>json_validate\<close> raises \<open>ValueError\<close>: it returns no validity result, and the state
  is the one it was called in.
\<close>
theorem non_dictionary_arguments_raise:
  "(\<forall>kvs. json \<noteq> JObj kvs) \<or> (\<forall>kvs. skeleton \<noteq> JObj kvs) \<Longrightarrow>
   \<exists>text. json_validate lib st json skeleton = (Inl (ValueError text), st)"
  by (cases json; cases skeleton) (simp_all add: json_validate_def)

text \<open>C6 at an instance that is an array.\<close>
theorem non_dictionary_arguments_raise_witness:
  "\<exists>text. json_validate (draft4 100) module_state (JArr []) (JObj []) =
            (Inl (ValueError text), module_state)"
  using non_dictionary_arguments_raise [of "JArr []" "JObj []" "draft4 100" module_state]
  by simp

subsection \<open>The composed schema (C5, C4)\<close>

text \<open>
  C5. In a state whose module-level objects are those of the module, the composed schema
  is a dictionary with distinct keys. Under each of the six keys \<open>type\<close>, \<open>items\<close>,
  \<open>properties\<close>, \<open>additionalProperties\<close>, \<open>required\<close> and \<open>local\<close> that the skeleton
  has, it holds the skeleton's value as it is; under every other key, and under any of
  the six that the skeleton lacks, it holds what the default schema holds. In particular
  the dictionary stays under \<open>pScheduler\<close> whatever the skeleton says, and the skeleton's
  local definitions are under \<open>local\<close>. The default schema is the envelope of type
  \<open>object\<close> that rejects additional properties.
\<close>
theorem composed_schema_overwrites_envelope:
  assumes "g_dictionary st = dictionary" and "g_default_schema st = default_schema"
  shows "(\<exists>kvs. composed_schema st skeleton = JObj kvs \<and> distinct (map fst kvs)) \<and>
         member (composed_schema st skeleton) k =
           (if k \<in> {''type'', ''items'', ''properties'', ''additionalProperties'',
                     ''required'', ''local''} \<and>
               map_of skeleton k \<noteq> None
            then map_of skeleton k
            else member (view module_state Default_schema) k) \<and>
         member (composed_schema st skeleton) ''pScheduler'' = Some (JObj dictionary) \<and>
         member (composed_schema st skeleton) ''local'' = map_of skeleton ''local'' \<and>
         view module_state Default_schema =
           JObj [(''$schema'', JStr ''http://json-schema.org/draft-04/schema#''),
                 (''id'', JStr ''http://perfsonar.net/pScheduler/json_generic.json''),
                 (''title'', JStr ''pScheduler Generic Validation Schema''),
                 (''type'', JStr ''object''),
                 (''additionalProperties'', JBool False),
                 (''pScheduler'', JObj dictionary)]"
proof -
  have "slot_value st = slot_value module_state"
    using assms by (simp add: fun_eq_iff slot_value_def module_state_def split: slot.splits)
  then have v: "view st Default_schema = view module_state Default_schema"
    using assms by (simp add: view_def getobj_def module_state_def)
  have env: "view module_state Default_schema =
           JObj [(''$schema'', JStr ''http://json-schema.org/draft-04/schema#''),
                 (''id'', JStr ''http://perfsonar.net/pScheduler/json_generic.json''),
                 (''title'', JStr ''pScheduler Generic Validation Schema''),
                 (''type'', JStr ''object''),
                 (''additionalProperties'', JBool False),
                 (''pScheduler'', JObj dictionary)]"
    by (simp add: view_def getobj_def module_state_def default_schema_def slot_value_def)
  have d: "distinct (map fst (g_default_schema st))"
    using assms by (simp add: default_schema_def)
  have 1: "\<exists>kvs. composed_schema st skeleton = JObj kvs \<and> distinct (map fst kvs)"
    using distinct_overlay [OF d, of skeleton]
    by (simp add: composed_schema_eq comp_def case_prod_beta)
  have six: "set elements = {''type'', ''items'', ''properties'', ''additionalProperties'',
                            ''required'', ''local''}"
    by (simp add: elements_def)
  have 2: "member (composed_schema st skeleton) k =
           (if k \<in> {''type'', ''items'', ''properties'', ''additionalProperties'',
                     ''required'', ''local''} \<and>
               map_of skeleton k \<noteq> None
            then map_of skeleton k
            else member (view module_state Default_schema) k)" for k
    unfolding six [symmetric] by (simp only: member_composed_schema v)
  have 3: "member (composed_schema st skeleton) ''pScheduler'' = Some (JObj dictionary)"
    by (simp add: 2) (simp add: env member_def)
  have 4: "member (composed_schema st skeleton) ''local'' = map_of skeleton ''local''"
  proof (cases "map_of skeleton ''local''")
    case None
    then show ?thesis by (simp add: 2) (simp add: env member_def)
  next
    case (Some a)
    then show ?thesis by (simp add: 2)
  qed
  from 1 2 3 4 env show ?thesis by blast
qed

text \<open>C5 at a skeleton that sets all six keys and tries to set \<open>title\<close> and
  \<open>pScheduler\<close>: each of the six holds the skeleton's value, the other two keep the
  values of the envelope.\<close>
theorem composed_schema_overwrites_envelope_witness:
  "member (composed_schema module_state
      [(''type'', JStr ''array''), (''items'', JObj [(''type'', JStr ''integer'')]),
       (''properties'', JObj []), (''additionalProperties'', JBool True),
       (''required'', JArr [JStr ''a'']), (''local'', JObj [(''t'', JObj [])]),
       (''title'', JStr ''mine''), (''pScheduler'', JObj [])]) ''type'' = Some (JStr ''array'') \<and>
   member (composed_schema module_state
      [(''type'', JStr ''array''), (''items'', JObj [(''type'', JStr ''integer'')]),
       (''properties'', JObj []), (''additionalProperties'', JBool True),
       (''required'', JArr [JStr ''a'']), (''local'', JObj [(''t'', JObj [])]),
       (''title'', JStr ''mine''), (''pScheduler'', JObj [])]) ''items'' =
     Some (JObj [(''type'', JStr ''integer'')]) \<and>
   member (composed_schema module_state
      [(''type'', JStr ''array''), (''items'', JObj [(''type'', JStr ''integer'')]),
       (''properties'', JObj []), (''additionalProperties'', JBool True),
       (''required'', JArr [JStr ''a'']), (''local'', JObj [(''t'', JObj [])]),
       (''title'', JStr ''mine''), (''pScheduler'', JObj [])]) ''properties'' = Some (JObj []) \<and>
   member (composed_schema module_state
      [(''type'', JStr ''array''), (''items'', JObj [(''type'', JStr ''integer'')]),
       (''properties'', JObj []), (''additionalProperties'', JBool True),
       (''required'', JArr [JStr ''a'']), (''local'', JObj [(''t'', JObj [])]),
       (''title'', JStr ''mine''), (''pScheduler'', JObj [])]) ''additionalProperties'' =
     Some (JBool True) \<and>
   member (composed_schema module_state
      [(''type'', JStr ''array''), (''items'', JObj [(''type'', JStr ''integer'')]),
       (''properties'', JObj []), (''additionalProperties'', JBool True),
       (''required'', JArr [JStr ''a'']), (''local'', JObj [(''t'', JObj [])]),
       (''title'', JStr ''mine''), (''pScheduler'', JObj [])]) ''required'' =
     Some (JArr [JStr ''a'']) \<and>
   member (composed_schema module_state
      [(''type'', JStr ''array''), (''items'', JObj [(''type'', JStr ''integer'')]),
       (''properties'', JObj []), (''additionalProperties'', JBool True),
       (''required'', JArr [JStr ''a'']), (''local'', JObj [(''t'', JObj [])]),
       (''title'', JStr ''mine''), (''pScheduler'', JObj [])]) ''local'' =
     Some (JObj [(''t'', JObj [])]) \<and>
   member (composed_schema module_state
      [(''type'', JStr ''array''), (''items'', JObj [(''type'', JStr ''integer'')]),
       (''properties'', JObj []), (''additionalProperties'', JBool True),
       (''required'', JArr [JStr ''a'']), (''local'', JObj [(''t'', JObj [])]),
       (''title'', JStr ''mine''), (''pScheduler'', JObj [])]) ''title'' =
     Some (JStr ''pScheduler Generic Validation Schema'') \<and>
   member (composed_schema module_state
      [(''type'', JStr ''array''), (''items'', JObj [(''type'', JStr ''integer'')]),
       (''properties'', JObj []), (''additionalProperties'', JBool True),
       (''required'', JArr [JStr ''a'']), (''local'', JObj [(''t'', JObj [])]),
       (''title'', JStr ''mine''), (''pScheduler'', JObj [])]) ''pScheduler'' =
     Some (JObj dictionary)"
proof -
  have g: "g_dictionary module_state = dictionary" "g_default_schema module_state = default_schema"
    by (simp_all add: module_state_def)
  note t = composed_schema_overwrites_envelope [OF g,
      of "[(''type'', JStr ''array''), (''items'', JObj [(''type'', JStr ''integer'')]),
       (''properties'', JObj []), (''additionalProperties'', JBool True),
       (''required'', JArr [JStr ''a'']), (''local'', JObj [(''t'', JObj [])]),
       (''title'', JStr ''mine''), (''pScheduler'', JObj [])]"]
  from t [of "''type''"] t [of "''items''"] t [of "''properties''"]
    t [of "''additionalProperties''"] t [of "''required''"] t [of "''title''"]
  show ?thesis
    by (simp add: member_def)
qed

text \<open>
  C4, as the code has it. A key of the skeleton outside \<open>elements\<close> is never read: the
  call behaves as on the skeleton without such keys, in its result and in the state it
  leaves. Nothing is raised on account of the key.
\<close>
theorem ignores_unrecognized_keys:
  "json_validate lib st json (JObj skeleton) =
   json_validate lib st json (JObj (filter (\<lambda>kv. fst kv \<in> set elements) skeleton))"
proof (cases json)
  case (JObj j)
  show ?thesis
    unfolding JObj json_validate_dict composed_schema_filter overlay_filter ..
qed (simp_all add: json_validate_def)

text \<open>C4, as the code has it, at a skeleton with the key \<open>minProperties\<close>.\<close>
theorem ignores_unrecognized_keys_witness:
  "json_validate (draft4 100) module_state (JObj [])
     (JObj [(''type'', JStr ''object''), (''minProperties'', JInt 1)]) =
   json_validate (draft4 100) module_state (JObj []) (JObj [(''type'', JStr ''object'')])"
  using ignores_unrecognized_keys [of "draft4 100" module_state "JObj []"
      "[(''type'', JStr ''object''), (''minProperties'', JInt 1)]"]
  by (simp add: elements_def)

text \<open>
  C4 as stated fails: the skeleton \<open>{"minProperties": 1}\<close> has a key outside
  \<open>elements\<close>, and the call on the empty instance returns \<open>(True, "OK")\<close>. No error is
  raised, and the constraint is not applied either.
\<close>
theorem unrecognized_key_is_not_rejected:
  "fst (json_validate (draft4 100) module_state (JObj [])
          (JObj [(''minProperties'', JInt 1)])) = Inr (True, ''OK'')"
  by (simp add: call_defs engine_defs)

subsection \<open>Calls do not interfere (C8)\<close>

text \<open>
  C8. A call leaves \<open>__dictionary__\<close> and \<open>__default_schema__\<close> as they were and changes
  no object that existed before it; and the result of a call made after any other call is
  the result it has without that call. With the same arguments for both calls: calling
  twice gives the same result twice. (The engine is a function of the instance and the
  schema: what the library itself keeps between calls is outside the module.)
\<close>
theorem calls_do_not_interfere:
  "g_dictionary (snd (json_validate lib st json skeleton)) = g_dictionary st \<and>
   g_default_schema (snd (json_validate lib st json skeleton)) = g_default_schema st \<and>
   take (length (heap st)) (heap (snd (json_validate lib st json skeleton))) = heap st \<and>
   fst (json_validate lib (snd (json_validate lib st json' skeleton')) json skeleton) =
     fst (json_validate lib st json skeleton)"
proof -
  have a: "g_dictionary (snd (json_validate lib st j s)) = g_dictionary st \<and>
        g_default_schema (snd (json_validate lib st j s)) = g_default_schema st \<and>
        take (length (heap st)) (heap (snd (json_validate lib st j s))) = heap st" for j s
    using json_validate_state [of lib st j s] by auto
  from a [of json' skeleton'] have
    "fst (json_validate lib (snd (json_validate lib st json' skeleton')) json skeleton) =
     fst (json_validate lib st json skeleton)"
    by (intro json_validate_globals) simp_all
  with a [of json skeleton] show ?thesis by simp
qed

text \<open>C8 at a first call that overwrites \<open>type\<close> in its copy: the state has grown, the
  default schema has not changed, and the next call sees the envelope as it was.\<close>
theorem calls_do_not_interfere_witness:
  "snd (json_validate (draft4 100) module_state (JObj [])
          (JObj [(''type'', JStr ''array'')])) \<noteq> module_state \<and>
   g_default_schema (snd (json_validate (draft4 100) module_state (JObj [])
          (JObj [(''type'', JStr ''array'')]))) = default_schema \<and>
   fst (json_validate (draft4 100)
          (snd (json_validate (draft4 100) module_state (JObj [])
                  (JObj [(''type'', JStr ''array'')])))
          (JObj []) (JObj [])) = Inr (True, ''OK'')"
proof -
  have a: "fst (json_validate (draft4 100) module_state (JObj []) (JObj [])) = Inr (True, ''OK'')"
    by (simp add: call_defs engine_defs)
  have b: "snd (json_validate (draft4 100) module_state (JObj [])
          (JObj [(''type'', JStr ''array'')])) \<noteq> module_state"
    by (simp add: json_validate_snd module_state_def)
  from calls_do_not_interfere [of "draft4 100" module_state "JObj []" "JObj []"
      "JObj []" "JObj [(''type'', JStr ''array'')]"]
    calls_do_not_interfere [of "draft4 100" module_state "JObj []"
      "JObj [(''type'', JStr ''array'')]"] a b
  show ?thesis by (simp add: module_state_def)
qed

subsection \<open>The message of a reported failure (C2)\<close>

text \<open>
  C2. On dictionaries, \<open>json_validate\<close> returns \<open>(False, text)\<close> exactly when the schema
  passes the self-check, the engine reports a validation error and the error has a
  message; and then \<open>text\<close> is the message alone when the path of the error is empty, and
  the message after \<open>At /\<close>, the path elements joined by \<open>/\<close>, and \<open>: \<close> otherwise.
\<close>
theorem failure_message_path_prefix:
  "fst (json_validate lib st (JObj j) (JObj sk)) = Inr (False, text) \<longleftrightarrow>
     check_schema lib (composed_schema st sk) = None \<and>
     (\<exists>ex m. validate lib (JObj j) (composed_schema st sk) = Failed ex \<and>
             invalid_message ex = Inr m \<and>
             text = (if ex_absolute_path ex = [] then m
                     else ''At /'' @ join ''/'' (map str_elem (ex_absolute_path ex)) @ '': '' @ m))"
  by (auto simp: json_validate_dict report_text split: option.splits verdict.splits sum.splits)

text \<open>C2 at a wrong element at \<open>a.b[2]\<close>: the text starts with \<open>At /a/b/2: \<close>. Beside
  it, the text for a path through the index 12 and the text for the empty path.\<close>
theorem failure_message_path_prefix_witness:
  "check_schema (draft4 100)
     (composed_schema module_state
        [(''properties'', JObj [(''a'', JObj [(''properties'',
            JObj [(''b'', JObj [(''items'', JObj [(''type'', JStr ''integer'')])])])])])]) = None \<and>
   (\<exists>ex m. validate (draft4 100)
              (JObj [(''a'', JObj [(''b'', JArr [JInt 1, JInt 2, JStr ''x''])])])
              (composed_schema module_state
                 [(''properties'', JObj [(''a'', JObj [(''properties'',
                     JObj [(''b'', JObj [(''items'', JObj [(''type'', JStr ''integer'')])])])])])])
              = Failed ex \<and>
            invalid_message ex = Inr m \<and>
            ''At /a/b/2: \\'x\\' is not of type \\'integer'' @ [CHR 0x27] =
              (if ex_absolute_path ex = [] then m
               else ''At /'' @ join ''/'' (map str_elem (ex_absolute_path ex)) @ '': '' @ m)) \<and>
   report [Key ''rows'', Index 12, Key ''n''] ''bad'' = (False, ''At /rows/12/n: bad'') \<and>
   report [] ''bad'' = (False, ''bad'')"
proof -
  have "fst (json_validate (draft4 100) module_state
          (JObj [(''a'', JObj [(''b'', JArr [JInt 1, JInt 2, JStr ''x''])])])
          (JObj [(''properties'', JObj [(''a'', JObj [(''properties'',
                     JObj [(''b'', JObj [(''items'', JObj [(''type'', JStr ''integer'')])])])])])]))
        = Inr (False, ''At /a/b/2: \\'x\\' is not of type \\'integer'' @ [CHR 0x27])"
    by (simp add: call_defs engine_defs)
  then have "check_schema (draft4 100)
     (composed_schema module_state
        [(''properties'', JObj [(''a'', JObj [(''properties'',
            JObj [(''b'', JObj [(''items'', JObj [(''type'', JStr ''integer'')])])])])])]) = None \<and>
   (\<exists>ex m. validate (draft4 100)
              (JObj [(''a'', JObj [(''b'', JArr [JInt 1, JInt 2, JStr ''x''])])])
              (composed_schema module_state
                 [(''properties'', JObj [(''a'', JObj [(''properties'',
                     JObj [(''b'', JObj [(''items'', JObj [(''type'', JStr ''integer'')])])])])])])
              = Failed ex \<and>
            invalid_message ex = Inr m \<and>
            ''At /a/b/2: \\'x\\' is not of type \\'integer'' @ [CHR 0x27] =
              (if ex_absolute_path ex = [] then m
               else ''At /'' @ join ''/'' (map str_elem (ex_absolute_path ex)) @ '': '' @ m))"
    by (rule failure_message_path_prefix [THEN iffD1])
  moreover have "report [Key ''rows'', Index 12, Key ''n''] ''bad'' = (False, ''At /rows/12/n: bad'')"
    by (simp add: report_def str_nat.simps digit_def)
  moreover have "report [] ''bad'' = (False, ''bad'')"
    by (simp add: report_def)
  ultimately show ?thesis by (intro conjI) (erule conjunct1, erule conjunct2, assumption+)
qed

subsection \<open>Custom messages (C10, C3)\<close>

text \<open>
  C10. When the first validation error comes from a subschema with an
  \<open>x-invalid-message\<close> string and the offending value is not a string, \<open>json_validate\<close>
  raises \<open>TypeError\<close> and returns no result.
\<close>
theorem non_string_value_raises_TypeError:
  assumes "check_schema lib (composed_schema st sk) = None"
    and "validate lib (JObj j) (composed_schema st sk) = Failed ex"
    and "ex_schema ex = JObj d"
    and "map_of d ''x-invalid-message'' = Some (JStr template)"
    and "\<forall>v. ex_instance ex \<noteq> JStr v"
  shows "fst (json_validate lib st (JObj j) (JObj sk)) = Inl TypeError"
  using assms
  by (cases "ex_instance ex") (simp_all add: json_validate_dict invalid_message_def)

text \<open>C10 at a record given where a \<open>Duration\<close> is expected.\<close>
theorem non_string_value_raises_TypeError_witness:
  "fst (json_validate (draft4 100) module_state
          (JObj [(''howlong'', JObj [(''minutes'', JInt 10)])])
          (JObj [(''properties'',
                  JObj [(''howlong'', JObj [(''$ref'', JStr ''#/pScheduler/Duration'')])])]))
   = Inl TypeError"
proof -
  let ?sk = "[(''properties'',
                  JObj [(''howlong'', JObj [(''$ref'', JStr ''#/pScheduler/Duration'')])])]"
  let ?ex = "ValidationError (''{\\'minutes\\': 10} is not of type \\'string'' @ [CHR 0x27])
               [Key ''howlong''] dict_Duration (JObj [(''minutes'', JInt 10)])"
  have 1: "check_schema (draft4 100) (composed_schema module_state ?sk) = None"
    by (simp add: call_defs engine_defs)
  have 2: "validate (draft4 100) (JObj [(''howlong'', JObj [(''minutes'', JInt 10)])])
             (composed_schema module_state ?sk) = Failed ?ex"
    by (simp add: call_defs engine_defs lookup_Duration dict_Duration_def)
  have 3: "ex_schema ?ex = JObj [(''type'', JStr ''string''),
      (''pattern'', JStr (''^P(?:'' @ bs @ ''d+(?:'' @ bs @ ''.'' @ bs @ ''d+)?W)?(?:'' @ bs @ ''d+(?:'' @ bs @ ''.'' @ bs @ ''d+)?D)?(?:T(?:'' @ bs @ ''d+(?:'' @ bs @ ''.'' @ bs @ ''d+)?H)?(?:'' @ bs @ ''d+(?:'' @ bs @ ''.'' @ bs @ ''d+)?M)?(?:'' @ bs @ ''d+(?:'' @ bs @ ''.'' @ bs @ ''d+)?S)?)?$'')),
      (''x-invalid-message'', JStr ''\\'%s\\' is not a valid ISO 8601 duration.'')]"
    by (simp add: dict_Duration_def)
  show ?thesis
    by (rule non_string_value_raises_TypeError [OF 1 2 3]) simp_all
qed

text \<open>
  When the offending value is a string, the message is the template with every \<open>%s\<close>
  replaced by the value, and without a template it is the engine's message. The sample
  of the specification: the template \<open>'%s' is not valid.\<close> and the value \<open>PT10Mxx\<close>.
\<close>

lemma custom_message_on_string:
  "ex_schema ex = JObj d \<Longrightarrow> map_of d ''x-invalid-message'' = Some (JStr template) \<Longrightarrow>
   ex_instance ex = JStr v \<Longrightarrow> invalid_message ex = Inr (replace ''%s'' v template)"
  by (simp add: invalid_message_def)

lemma default_message_without_template:
  "ex_schema ex = JObj d \<Longrightarrow> map_of d ''x-invalid-message'' = None \<Longrightarrow>
   invalid_message ex = Inr (ex_message ex)"
  by (simp add: invalid_message_def)

lemma custom_message_sample:
  "invalid_message
     (ValidationError default_text path
        (JObj [(''type'', JStr ''string''), (''pattern'', JStr pattern),
               (''x-invalid-message'', JStr ''\\'%s\\' is not valid.'')])
        (JStr ''PT10Mxx''))
   = Inr ''\\'PT10Mxx\\' is not valid.''"
  by (simp add: invalid_message_def)

text \<open>
  C3 fails on the code where the offending value is not a string. The skeleton declares
  a local type with the template \<open>'%s' is not valid.\<close>; the instance gives the integer
  \<open>600\<close> for it. C3 promises the message \<open>'600' is not valid.\<close>; the call raises
  \<open>TypeError\<close>.
\<close>
theorem custom_message_raises_on_integer:
  "fst (json_validate (draft4 100) module_state
          (JObj [(''howlong'', JInt 600)])
          (JObj [(''local'',
                  JObj [(''Howlong'',
                         JObj [(''type'', JStr ''string''),
                               (''x-invalid-message'', JStr ''\\'%s\\' is not valid.'')])]),
                 (''properties'',
                  JObj [(''howlong'', JObj [(''$ref'', JStr ''#/local/Howlong'')])])]))
   = Inl TypeError"
  by (simp add: call_defs engine_defs)

subsection \<open>Validation failures that are raised (C1, C7)\<close>

text \<open>
  What holds of C1: on dictionaries, the call returns a success exactly when the schema
  passes the self-check and the engine finds no error, and the text of a success is
  \<open>OK\<close>.
\<close>
lemma success_value_is_OK:
  "fst (json_validate lib st (JObj j) (JObj sk)) = Inr (True, text) \<longleftrightarrow>
     text = ''OK'' \<and> check_schema lib (composed_schema st sk) = None \<and>
     validate lib (JObj j) (composed_schema st sk) = Passed"
  by (auto simp: json_validate_dict report_text split: option.splits verdict.splits sum.splits)

text \<open>
  C1 fails on the code at a validation failure that is not reported: with the retry
  policy of the dictionary, an entry whose \<open>wait\<close> is the integer \<open>30\<close> violates
  \<open>Duration\<close>, and the call raises \<open>TypeError\<close> where C1 promises \<open>(False, message)\<close>.
\<close>
theorem validation_failure_is_raised_not_reported:
  "fst (json_validate (draft4 100) module_state
          (JObj [(''retry'', JArr [JObj [(''attempts'', JInt 3), (''wait'', JInt 30)]])])
          (JObj [(''properties'',
                  JObj [(''retry'', JObj [(''$ref'', JStr ''#/pScheduler/RetryPolicy'')])])]))
   = Inl TypeError"
  by (simp add: call_defs engine_defs lookup_RetryPolicy lookup_RetryPolicyEntry lookup_Cardinal
        lookup_Duration dict_RetryPolicy_def dict_RetryPolicyEntry_def dict_Cardinal_def
        dict_Duration_def)

text \<open>
  C7 fails on the code: the skeleton is well-formed and its one reference resolves to
  the dictionary entry \<open>Duration\<close>, the instance is a dictionary, and the call raises
  \<open>TypeError\<close>.
\<close>
theorem resolvable_skeleton_raises_TypeError:
  "fst (json_validate (draft4 100) module_state
          (JObj [(''howlong'', JInt 5)])
          (JObj [(''properties'',
                  JObj [(''howlong'', JObj [(''$ref'', JStr ''#/pScheduler/Duration'')])])]))
   = Inl TypeError"
  by (simp add: call_defs engine_defs lookup_Duration dict_Duration_def)

subsection \<open>The range of \<open>UInt64\<close> (C9)\<close>

text \<open>
  The integers that the entry \<open>UInt64\<close> accepts are those from 0 to
  184446744073709551615, the maximum the module writes. The largest 64-bit value is
  18446744073709551615.
\<close>
lemma UInt64_accepts:
  "validate_at (Suc limit) whole dict_UInt64 (JInt x) path = Passed \<longleftrightarrow>
     0 \<le> x \<and> x \<le> 184446744073709551615"
  by (simp add: dict_UInt64_def keyword_def type_kw_def is_type_def minimum_kw_def maximum_kw_def
        num_def exclusive_def failure_def split: option.splits)

text \<open>
  C9 fails on the code: \<open>2^64 = 18446744073709551616\<close> is outside the 64-bit range and
  validates against \<open>UInt64\<close>.
\<close>
theorem UInt64_accepts_two_to_the_64:
  "fst (json_validate (draft4 100) module_state
          (JObj [(''octets'', JInt 18446744073709551616)])
          (JObj [(''properties'',
                  JObj [(''octets'', JObj [(''$ref'', JStr ''#/pScheduler/UInt64'')])])]))
   = Inr (True, ''OK'')"
  by (simp add: call_defs engine_defs lookup_UInt64 dict_UInt64_def)

end
